theory Spec2Isabelle
  imports Main "HOL-Library.Sublist"
begin

section \<open>Platform values\<close>

text \<open>
  The client is TypeScript. Every \<^verbatim>\<open>throw\<close> and every rejected promise of the source is
  a value of type \<open>error\<close>: \<open>Error m\<close> is \<^verbatim>\<open>new Error(m)\<close>, the only kind of error the
  client constructs itself; \<open>SyntaxError\<close> is what JSON parsing raises, \<open>RangeError\<close> what
  \<^verbatim>\<open>toISOString\<close> raises on an invalid date, \<open>TypeError\<close> what \<^verbatim>\<open>new URL\<close> raises on a
  text that is no URL (the transport may reject with any of them).
\<close>

datatype error = Error string | SyntaxError | RangeError | TypeError

text \<open>
  A \<^verbatim>\<open>Date\<close> object holds a time value in milliseconds since the epoch, or NaN
  (an invalid date). A comparison with an invalid date is false.
\<close>

datatype Date = TimeValue int | InvalidDate

fun Date_lt :: "Date \<Rightarrow> Date \<Rightarrow> bool" where
  "Date_lt (TimeValue a) (TimeValue b) = (a < b)"
| "Date_lt _ _ = False"

definition Date_gt :: "Date \<Rightarrow> Date \<Rightarrow> bool" where
  "Date_gt a b = Date_lt b a"

text \<open>
  \<^verbatim>\<open>toISOString()\<close>: the rendered text only reaches the log sink, so the model keeps
  whether the call raises.
\<close>

fun toISOString :: "Date \<Rightarrow> error + unit" where
  "toISOString (TimeValue t) = Inr ()"
| "toISOString InvalidDate = Inl RangeError"

text \<open>
  Truthiness, as the guards \<^verbatim>\<open>if (x)\<close> and \<^verbatim>\<open>!x\<close> read it: \<^verbatim>\<open>null\<close>, \<^verbatim>\<open>undefined\<close>
  (both \<open>None\<close>), the empty string, the number zero and \<^verbatim>\<open>false\<close> are falsy.
\<close>

definition truthy :: "string option \<Rightarrow> bool" where
  "truthy v = (case v of None \<Rightarrow> False | Some s \<Rightarrow> s \<noteq> [])"

definition truthy_number :: "int option \<Rightarrow> bool" where
  "truthy_number v = (case v of None \<Rightarrow> False | Some n \<Rightarrow> n \<noteq> 0)"

definition truthy_boolean :: "bool option \<Rightarrow> bool" where
  "truthy_boolean v = (case v of None \<Rightarrow> False | Some b \<Rightarrow> b)"

text \<open>
  A \<open>char\<close> stands for one code unit of a JavaScript string. \<^verbatim>\<open>trim()\<close> removes white
  space and line terminators at both ends; those below 256 are listed.
\<close>

definition isWhiteSpace :: "char \<Rightarrow> bool" where
  "isWhiteSpace c =
     (c \<in> {CHR 0x09, CHR 0x0A, CHR 0x0B, CHR 0x0C, CHR 0x0D, CHR '' '', CHR 0xA0})"

definition trim :: "string \<Rightarrow> string" where
  "trim s = rev (dropWhile isWhiteSpace (rev (dropWhile isWhiteSpace s)))"

text \<open>
  \<^verbatim>\<open>String(n)\<close> and \<^verbatim>\<open>${n}\<close> on whole numbers below \<open>1e21\<close> in size: decimal
  digits, a minus sign first when negative. Fractions, larger numbers and NaN are outside
  the model.
\<close>

fun String_nat :: "nat \<Rightarrow> string" where
  "String_nat n =
     (if n < 10 then [''0123456789'' ! n]
      else String_nat (n div 10) @ [''0123456789'' ! (n mod 10)])"

declare String_nat.simps [simp del]

definition String_number :: "int \<Rightarrow> string" where
  "String_number i = (if i < 0 then CHR ''-'' # String_nat (nat (- i)) else String_nat (nat i))"

text \<open>
  \<^verbatim>\<open>URLSearchParams.set(name, value)\<close>: the first pair named \<open>name\<close> takes the value and
  the later ones are removed; with no such pair, the pair is appended.
\<close>

fun searchParams_set :: "string \<Rightarrow> string \<Rightarrow> (string \<times> string) list \<Rightarrow> (string \<times> string) list" where
  "searchParams_set k v [] = [(k, v)]"
| "searchParams_set k v (p # ps) =
     (if fst p = k then (k, v) # filter (\<lambda>q. fst q \<noteq> k) ps
      else p # searchParams_set k v ps)"

text \<open>\<^verbatim>\<open>URLSearchParams.get(name)\<close>: the value of the first pair with that name.\<close>

definition searchParams_get :: "string \<Rightarrow> (string \<times> string) list \<Rightarrow> string option" where
  "searchParams_get k ps = map_of ps k"

section \<open>Data model (types.ts)\<close>

record SikkaRequestKeyRequest =
  app_id :: string
  app_key :: string
  grant_type :: string
  office_id :: "string option"
  refresh_key :: "string option"
  secret_key :: "string option"

text \<open>
  The key response is cast to its declared type without a check, so the three fields the
  client reads hold whatever the body had there: a text, \<^verbatim>\<open>null\<close>, or nothing
  (\<^verbatim>\<open>undefined\<close>). The fields it never reads are kept as texts.
\<close>

datatype Field = Missing | Null | Text string

record SikkaRequestKeyResponse =
  domain :: string
  end_time :: Field
  expires_in :: string
  href :: string
  issued_to :: string
  refresh_key :: Field
  request_count :: string
  request_key :: Field
  scope :: string
  start_time :: string
  status :: string

text \<open>
  What a session field holds after \<^verbatim>\<open>this.requestKey = response.request_key\<close>: \<open>None\<close> is
  \<^verbatim>\<open>null\<close> or \<^verbatim>\<open>undefined\<close>, which every guard and every reader of the client treats
  alike.
\<close>

fun assigned :: "Field \<Rightarrow> string option" where
  "assigned Missing = None"
| "assigned Null = None"
| "assigned (Text s) = Some s"

text \<open>The optional fields of \<open>SikkaApiError\<close>: \<open>None\<close> is \<^verbatim>\<open>undefined\<close>.\<close>

record SikkaApiError =
  error :: "string option"
  error_description :: "string option"
  message :: "string option"

record SikkaClientCredentials =
  appId :: string
  appKey :: string
  officeId :: string
  secretKey :: string

record SikkaClientConfig =
  baseUrl :: "string option"
  credentials :: SikkaClientCredentials

text \<open>
  The paginated envelope. The dispatcher builds \<^verbatim>\<open>{ items: [] }\<close> for an empty body, an
  envelope with every other field undefined, so those fields are optional here. The
  \<open>pagination\<close> markers are (current, first, last, next, previous).
\<close>

record 't SikkaPaginatedResponse =
  execution_time :: "string option"
  items :: "'t list"
  limit :: "string option"
  offset :: "string option"
  pagination :: "(string \<times> string \<times> string \<times> string \<times> string) option"
  total_count :: "string option"

record SikkaClaimListParams =
  claim_id :: "string option"
  end_date :: "string option"
  limit :: "int option"
  offset :: "int option"
  patient_id :: "string option"
  start_date :: "string option"
  status :: "string option"

record SikkaPaymentTypeListParams =
  code :: "string option"
  customer_id :: "string option"
  is_adjustment_type :: "bool option"
  are_credit_card_details_required :: "bool option"
  is_debit_adjustment_type :: "bool option"
  is_insurance_type :: "bool option"
  limit :: "int option"
  offset :: "int option"
  practice_id :: "string option"

record SikkaPatientListParams =
  birthdate :: "string option"
  firstname :: "string option"
  lastname :: "string option"
  limit :: "int option"
  offset :: "int option"
  patient_id :: "string option"

text \<open>
  Of the thirty-one text fields of a transaction the client reads \<open>transaction_type\<close>
  alone; the functions below take any extension of this record.
\<close>

record SikkaTransaction =
  amount :: string
  claim_sr_no :: string
  procedure_code :: string
  transaction_sr_no :: string
  transaction_type :: string

record SikkaTransactionListParams =
  claim_sr_no :: "string option"
  limit :: "int option"
  offset :: "int option"
  patient_id :: "string option"
  transaction_type :: "string option"

section \<open>Transport\<close>

text \<open>
  What \<^verbatim>\<open>fetch\<close> is called with. \<open>Href s\<close> is the text \<open>s\<close>; \<open>Url s ps\<close> is the
  serialisation of the URL object made by \<^verbatim>\<open>new URL(s)\<close> whose search parameters are
  now \<open>ps\<close>. The body is the value handed to \<^verbatim>\<open>JSON.stringify\<close>; \<open>httpMethod\<close> is the
  \<^verbatim>\<open>method\<close> option.
\<close>

datatype Resource = Href string | Url string "(string \<times> string) list"

datatype 'b Body = KeyRequestBody SikkaRequestKeyRequest | JsonBody 'b

record 'b Request =
  resource :: Resource
  body :: "'b Body option"
  headers :: "(string \<times> string) list"
  httpMethod :: string

text \<open>
  A response carries its body text (\<open>bodyText\<close>, what \<^verbatim>\<open>response.text()\<close> resolves to;
  reading the body is taken to succeed) and, for each type the client casts the parsed
  body to, the value read at that type (\<open>None\<close> when the text is not JSON of that
  shape): \<open>json_key\<close> at \<open>SikkaRequestKeyResponse\<close>, \<open>json_error\<close> at \<open>SikkaApiError\<close>,
  \<open>json_get\<close> at the envelope type of \<^verbatim>\<open>get\<close>, \<open>json_post\<close> at the result type of
  \<^verbatim>\<open>post\<close>. The casts of the source are unchecked; the model follows the declared types.
\<close>

record ('t, 'p) Response =
  ok :: bool
  status :: nat
  statusText :: string
  bodyText :: string
  json_key :: "SikkaRequestKeyResponse option"
  json_error :: "SikkaApiError option"
  json_get :: "'t SikkaPaginatedResponse option"
  json_post :: "'p option"

text \<open>
  \<^verbatim>\<open>JSON.parse(text)\<close> and \<^verbatim>\<open>response.json()\<close>, read at the type \<open>view\<close>: a text that is
  empty or white space only is never JSON, and parsing it raises \<open>SyntaxError\<close>. For a
  key response the view keeps \<^verbatim>\<open>null\<close> and missing fields as they are (a body that is
  \<^verbatim>\<open>null\<close> as a whole makes the first field access raise instead; it counts as a body
  that cannot be read, the session being untouched either way); the bodies of \<^verbatim>\<open>get\<close>
  and \<^verbatim>\<open>post\<close> are taken at their declared types.
\<close>

definition JSON_parse :: "(('t, 'p) Response \<Rightarrow> 'a option) \<Rightarrow> ('t, 'p) Response \<Rightarrow> error + 'a" where
  "JSON_parse view r =
     (if trim (bodyText r) = [] then Inl SyntaxError
      else (case view r of None \<Rightarrow> Inl SyntaxError | Some v \<Rightarrow> Inr v))"

text \<open>
  The platform and the network as the client meets them: the answer of \<^verbatim>\<open>fetch\<close> to a
  request (a rejection or a response), the clock reading \<^verbatim>\<open>Date.now()\<close>, the date that
  \<^verbatim>\<open>new Date(text)\<close> makes, and the search parameters \<^verbatim>\<open>new URL(text)\<close> starts with
  (\<open>TypeError\<close> when the text is no URL). One operation never hands the same request
  to \<^verbatim>\<open>fetch\<close> twice (the key request is an \<open>Href\<close>, a domain request a \<open>Url\<close>), so the
  answers are a function of the request. The clock reading is a time value, and so is
  the instant one hour later.
\<close>

record ('t, 'p, 'b) Platform =
  fetch :: "'b Request \<Rightarrow> error + ('t, 'p) Response"
  Date_now :: int
  Date_parse :: "string \<Rightarrow> Date"
  new_URL :: "string \<Rightarrow> error + (string \<times> string) list"

text \<open>
  \<^verbatim>\<open>new Date(response.end_time)\<close>: a text is parsed, \<^verbatim>\<open>null\<close> is the epoch, and
  \<^verbatim>\<open>undefined\<close> gives an invalid date.
\<close>

fun new_Date :: "('t, 'p, 'b) Platform \<Rightarrow> Field \<Rightarrow> Date" where
  "new_Date env Missing = InvalidDate"
| "new_Date env Null = TimeValue 0"
| "new_Date env (Text s) = Date_parse env s"

section \<open>The client (client.ts)\<close>

definition SIKKA_BASE_URL :: string where
  "SIKKA_BASE_URL = ''https://api.sikkasoft.com''"

record SikkaClient =
  baseUrl :: string
  credentials :: SikkaClientCredentials
  refreshKey :: "string option"
  requestKey :: "string option"
  requestKeyExpiresAt :: "Date option"

text \<open>
  The constructor: \<^verbatim>\<open>config.baseUrl ?? SIKKA_BASE_URL\<close>, and no session. The calls to the
  log sink are left out of the operations below: the sink is injected and does nothing
  unless replaced.
\<close>

definition new_SikkaClient :: "SikkaClientConfig \<Rightarrow> SikkaClient" where
  "new_SikkaClient config =
     \<lparr>baseUrl = (case SikkaClientConfig.baseUrl config of None \<Rightarrow> SIKKA_BASE_URL | Some u \<Rightarrow> u),
      credentials = SikkaClientConfig.credentials config,
      refreshKey = None, requestKey = None, requestKeyExpiresAt = None\<rparr>"

text \<open>
  An operation returns what it resolves to or the error it rejects with, the client
  afterwards, and the requests it handed to \<^verbatim>\<open>fetch\<close>, in order.
\<close>

type_synonym ('r, 'b) outcome = "(error + 'r) \<times> SikkaClient \<times> 'b Request list"

text \<open>
  The message of a failed key request: \<^verbatim>\<open>errorBody.error_description ?? errorBody.error
  ?? errorBody.message ?? errorMessage\<close>, inside a \<^verbatim>\<open>try\<close> whose \<^verbatim>\<open>catch\<close> keeps the
  status line when the body cannot be read.
\<close>

definition errorMessage :: "('t, 'p) Response \<Rightarrow> string" where
  "errorMessage response =
     (let fallback = String_nat (status response) @ '' '' @ statusText response in
      case JSON_parse json_error response of
        Inl e \<Rightarrow> fallback
      | Inr errorBody \<Rightarrow>
          (case error_description errorBody of Some d \<Rightarrow> d
           | None \<Rightarrow> (case error errorBody of Some e \<Rightarrow> e
           | None \<Rightarrow> (case message errorBody of Some m \<Rightarrow> m
           | None \<Rightarrow> fallback))))"

text \<open>The arguments of the \<^verbatim>\<open>fetch\<close> call of \<^verbatim>\<open>requestNewKey\<close>.\<close>

definition requestNewKey_request :: "SikkaClient \<Rightarrow> SikkaRequestKeyRequest \<Rightarrow> 'b Request" where
  "requestNewKey_request c requestBody =
     \<lparr>resource = Href (baseUrl c @ ''/v4/request_key''),
      body = Some (KeyRequestBody requestBody),
      headers = [(''Content-Type'', ''application/json'')],
      httpMethod = ''POST''\<rparr>"

definition requestNewKey ::
  "('t, 'p, 'b) Platform \<Rightarrow> SikkaClient \<Rightarrow> SikkaRequestKeyRequest
    \<Rightarrow> (error + SikkaRequestKeyResponse) \<times> 'b Request list" where
  "requestNewKey env c requestBody =
     (let req = requestNewKey_request c requestBody
      in case fetch env req of
           Inl e \<Rightarrow> (Inl e, [req])
         | Inr response \<Rightarrow>
             if \<not> ok response
             then (Inl (Error (''Sikka authentication failed: '' @ errorMessage response)), [req])
             else (JSON_parse json_key response, [req]))"

text \<open>
  Both \<^verbatim>\<open>authenticate\<close> and \<^verbatim>\<open>refreshAuthentication\<close> end alike: the three fields are
  assigned from the response, then the expiry is rendered for the log entry, which
  raises on an invalid date, after the assignment.
\<close>

definition storeKey :: "('t, 'p, 'b) Platform \<Rightarrow> SikkaClient \<Rightarrow> SikkaRequestKeyResponse \<Rightarrow> (error + unit) \<times> SikkaClient" where
  "storeKey env c response =
     (let expires = new_Date env (end_time response);
          c' = c\<lparr>requestKey := assigned (request_key response),
                 refreshKey := assigned (SikkaRequestKeyResponse.refresh_key response),
                 requestKeyExpiresAt := Some expires\<rparr>
      in (toISOString expires, c'))"

text \<open>The \<^verbatim>\<open>requestBody\<close> of \<^verbatim>\<open>authenticate\<close>.\<close>

definition authenticate_requestBody :: "SikkaClient \<Rightarrow> SikkaRequestKeyRequest" where
  "authenticate_requestBody c =
     \<lparr>app_id = appId (credentials c),
      app_key = appKey (credentials c),
      grant_type = ''request_key'',
      office_id = Some (officeId (credentials c)),
      refresh_key = None,
      secret_key = Some (secretKey (credentials c))\<rparr>"

definition authenticate :: "('t, 'p, 'b) Platform \<Rightarrow> SikkaClient \<Rightarrow> (unit, 'b) outcome" where
  "authenticate env c =
     (let requestBody = authenticate_requestBody c
      in case requestNewKey env c requestBody of
           (Inl e, sent) \<Rightarrow> (Inl e, c, sent)
         | (Inr response, sent) \<Rightarrow>
             (case storeKey env c response of (r, c') \<Rightarrow> (r, c', sent)))"

definition clearAuth :: "SikkaClient \<Rightarrow> SikkaClient" where
  "clearAuth c = c\<lparr>requestKey := None, refreshKey := None, requestKeyExpiresAt := None\<rparr>"

text \<open>The \<^verbatim>\<open>requestBody\<close> of \<^verbatim>\<open>refreshAuthentication\<close>.\<close>

definition refreshAuthentication_requestBody :: "SikkaClient \<Rightarrow> SikkaRequestKeyRequest" where
  "refreshAuthentication_requestBody c =
     \<lparr>app_id = appId (credentials c),
      app_key = appKey (credentials c),
      grant_type = ''refresh_key'',
      office_id = None,
      refresh_key = refreshKey c,
      secret_key = None\<rparr>"

definition refreshAuthentication :: "('t, 'p, 'b) Platform \<Rightarrow> SikkaClient \<Rightarrow> (unit, 'b) outcome" where
  "refreshAuthentication env c =
     (if \<not> truthy (refreshKey c)
      then (Inl (Error ''No refresh key available. Call authenticate() first.''), c, [])
      else
        let requestBody = refreshAuthentication_requestBody c
        in case requestNewKey env c requestBody of
             (Inl e, sent) \<Rightarrow> (Inl e, c, sent)
           | (Inr response, sent) \<Rightarrow>
               (case storeKey env c response of (r, c') \<Rightarrow> (r, c', sent)))"

definition ensureAuthenticated :: "('t, 'p, 'b) Platform \<Rightarrow> SikkaClient \<Rightarrow> (unit, 'b) outcome" where
  "ensureAuthenticated env c =
     (if \<not> truthy (requestKey c)
      then (Inl (Error ''Not authenticated. Call authenticate() first.''), c, [])
      else
        let oneHourFromNow = TimeValue (Date_now env + 60 * 60 * 1000)
        in case requestKeyExpiresAt c of
             None \<Rightarrow> (Inr (), c, [])
           | Some expiresAt \<Rightarrow>
               if Date_lt expiresAt oneHourFromNow then refreshAuthentication env c
               else (Inr (), c, []))"

definition getRequestKey :: "SikkaClient \<Rightarrow> error + string" where
  "getRequestKey c =
     (case requestKey c of
        None \<Rightarrow> Inl (Error ''Not authenticated. Call authenticate() first.'')
      | Some k \<Rightarrow>
          if k = [] then Inl (Error ''Not authenticated. Call authenticate() first.'')
          else Inr k)"

definition isAuthenticated :: "('t, 'p, 'b) Platform \<Rightarrow> SikkaClient \<Rightarrow> bool" where
  "isAuthenticated env c =
     (if \<not> truthy (requestKey c) then False
      else case requestKeyExpiresAt c of
             None \<Rightarrow> False
           | Some expiresAt \<Rightarrow> Date_gt expiresAt (TimeValue (Date_now env)))"

text \<open>
  The envelope \<^verbatim>\<open>{ items: [] }\<close> that \<^verbatim>\<open>get\<close> returns for an empty body.
\<close>

definition empty_items :: "'t SikkaPaginatedResponse" where
  "empty_items =
     \<lparr>execution_time = None, items = [], limit = None, offset = None,
      pagination = None, total_count = None\<rparr>"

text \<open>
  \<^verbatim>\<open>get(endpoint, params)\<close>. \<open>params\<close> is \<open>None\<close> when the argument is left out, else
  the entries of the object in the order \<^verbatim>\<open>Object.entries\<close> lists them. \<open>get_query\<close> is
  the search parameters after \<^verbatim>\<open>url.searchParams.set('request_key', requestKey)\<close> and the
  loop over the entries, from the parameters \<open>initial\<close> that \<^verbatim>\<open>new URL\<close> found in the
  text; \<open>get_request\<close> is the arguments of the \<^verbatim>\<open>fetch\<close> call.
\<close>

definition get_query ::
  "string \<Rightarrow> (string \<times> string) list \<Rightarrow> (string \<times> string) list option \<Rightarrow> (string \<times> string) list" where
  "get_query key initial params =
     (let keyed = searchParams_set ''request_key'' key initial
      in case params of
           None \<Rightarrow> keyed
         | Some entries \<Rightarrow> fold (\<lambda>(k, v). searchParams_set k v) entries keyed)"

definition get_request ::
  "SikkaClient \<Rightarrow> string \<Rightarrow> (string \<times> string) list \<Rightarrow> string \<Rightarrow> (string \<times> string) list option
    \<Rightarrow> 'b Request" where
  "get_request c key initial endpoint params =
     \<lparr>resource = Url (baseUrl c @ endpoint) (get_query key initial params),
      body = None,
      headers = [(''Content-Type'', ''application/json''), (''Request-Key'', key)],
      httpMethod = ''GET''\<rparr>"

definition post_request ::
  "SikkaClient \<Rightarrow> string \<Rightarrow> (string \<times> string) list \<Rightarrow> string \<Rightarrow> 'b \<Rightarrow> 'b Request" where
  "post_request c key initial endpoint payload =
     \<lparr>resource = Url (baseUrl c @ endpoint) (searchParams_set ''request_key'' key initial),
      body = Some (JsonBody payload),
      headers = [(''Content-Type'', ''application/json''), (''Request-Key'', key)],
      httpMethod = ''POST''\<rparr>"

definition get ::
  "('t, 'p, 'b) Platform \<Rightarrow> SikkaClient \<Rightarrow> string \<Rightarrow> (string \<times> string) list option
    \<Rightarrow> ('t SikkaPaginatedResponse, 'b) outcome" where
  "get env c endpoint params =
     (case ensureAuthenticated env c of
        (Inl e, c', sent) \<Rightarrow> (Inl e, c', sent)
      | (Inr u, c', sent) \<Rightarrow>
          (case getRequestKey c' of
             Inl e \<Rightarrow> (Inl e, c', sent)
           | Inr key \<Rightarrow>
               (case new_URL env (baseUrl c' @ endpoint) of
                  Inl e \<Rightarrow> (Inl e, c', sent)
                | Inr initial \<Rightarrow>
                    let req = get_request c' key initial endpoint params
                    in case fetch env req of
                         Inl e \<Rightarrow> (Inl e, c', sent @ [req])
                       | Inr response \<Rightarrow>
                           if \<not> ok response
                           then (Inl (Error (''Sikka API GET '' @ endpoint @ '' failed: ''
                                   @ String_nat (status response) @ '' ''
                                   @ statusText response @ '' - '' @ bodyText response)),
                                 c', sent @ [req])
                           else if bodyText response = [] \<or> trim (bodyText response) = []
                           then (Inr empty_items, c', sent @ [req])
                           else (JSON_parse json_get response, c', sent @ [req]))))"

definition post ::
  "('t, 'p, 'b) Platform \<Rightarrow> SikkaClient \<Rightarrow> string \<Rightarrow> 'b \<Rightarrow> ('p, 'b) outcome" where
  "post env c endpoint payload =
     (case ensureAuthenticated env c of
        (Inl e, c', sent) \<Rightarrow> (Inl e, c', sent)
      | (Inr u, c', sent) \<Rightarrow>
          (case getRequestKey c' of
             Inl e \<Rightarrow> (Inl e, c', sent)
           | Inr key \<Rightarrow>
               (case new_URL env (baseUrl c' @ endpoint) of
                  Inl e \<Rightarrow> (Inl e, c', sent)
                | Inr initial \<Rightarrow>
                    let req = post_request c' key initial endpoint payload
                    in case fetch env req of
                         Inl e \<Rightarrow> (Inl e, c', sent @ [req])
                       | Inr response \<Rightarrow>
                           if \<not> ok response
                           then (Inl (Error (''Sikka API POST '' @ endpoint @ '' failed: ''
                                   @ String_nat (status response) @ '' ''
                                   @ statusText response @ '' - '' @ bodyText response)),
                                 c', sent @ [req])
                           else (JSON_parse json_post response, c', sent @ [req]))))"

section \<open>Resource accessors\<close>

text \<open>
  \<^verbatim>\<open>if (params.f) { queryParams.f = params.f; }\<close> and, for a number,
  \<^verbatim>\<open>queryParams.f = String(params.f)\<close>. The keys of one accessor are distinct, so each
  assignment adds an entry at the end.
\<close>

definition assign_text :: "string \<Rightarrow> string option \<Rightarrow> (string \<times> string) list \<Rightarrow> (string \<times> string) list" where
  "assign_text k v queryParams =
     (case v of None \<Rightarrow> queryParams
      | Some s \<Rightarrow> if s = [] then queryParams else queryParams @ [(k, s)])"

definition assign_number :: "string \<Rightarrow> int option \<Rightarrow> (string \<times> string) list \<Rightarrow> (string \<times> string) list" where
  "assign_number k v queryParams =
     (case v of None \<Rightarrow> queryParams
      | Some n \<Rightarrow> if n = 0 then queryParams else queryParams @ [(k, String_number n)])"

text \<open>\<^verbatim>\<open>if (params.f) { queryParams.f = 'true'; }\<close> for a flag.\<close>

definition assign_flag :: "string \<Rightarrow> bool option \<Rightarrow> (string \<times> string) list \<Rightarrow> (string \<times> string) list" where
  "assign_flag k v queryParams =
     (if truthy_boolean v then queryParams @ [(k, ''true'')] else queryParams)"

text \<open>\<^verbatim>\<open>return response.items\<close> after an awaited \<^verbatim>\<open>get\<close>.\<close>

definition response_items ::
  "('t SikkaPaginatedResponse, 'b) outcome \<Rightarrow> ('t list, 'b) outcome" where
  "response_items out =
     (case out of
        (Inl e, c', sent) \<Rightarrow> (Inl e, c', sent)
      | (Inr response, c', sent) \<Rightarrow> (Inr (items response), c', sent))"

definition claims_queryParams :: "SikkaClaimListParams \<Rightarrow> (string \<times> string) list" where
  "claims_queryParams params =
     assign_number ''offset'' (SikkaClaimListParams.offset params)
       (assign_number ''limit'' (SikkaClaimListParams.limit params)
         (assign_text ''end_date'' (end_date params)
           (assign_text ''start_date'' (start_date params)
             (assign_text ''status'' (SikkaClaimListParams.status params)
               (assign_text ''claim_id'' (claim_id params)
                 (assign_text ''patient_id'' (SikkaClaimListParams.patient_id params) []))))))"

definition claims_list ::
  "('t, 'p, 'b) Platform \<Rightarrow> SikkaClient \<Rightarrow> SikkaClaimListParams \<Rightarrow> ('t list, 'b) outcome" where
  "claims_list env c params =
     response_items (get env c ''/v4/claims'' (Some (claims_queryParams params)))"

definition patients_queryParams :: "SikkaPatientListParams \<Rightarrow> (string \<times> string) list" where
  "patients_queryParams params =
     assign_number ''offset'' (SikkaPatientListParams.offset params)
       (assign_number ''limit'' (SikkaPatientListParams.limit params)
         (assign_text ''patient_id'' (SikkaPatientListParams.patient_id params)
           (assign_text ''birthdate'' (birthdate params)
             (assign_text ''lastname'' (lastname params)
               (assign_text ''firstname'' (firstname params) [])))))"

definition patients_list ::
  "('t, 'p, 'b) Platform \<Rightarrow> SikkaClient \<Rightarrow> SikkaPatientListParams \<Rightarrow> ('t list, 'b) outcome" where
  "patients_list env c params =
     response_items (get env c ''/v4/patients'' (Some (patients_queryParams params)))"

definition paymentTypes_queryParams :: "SikkaPaymentTypeListParams \<Rightarrow> (string \<times> string) list" where
  "paymentTypes_queryParams params =
     assign_number ''offset'' (SikkaPaymentTypeListParams.offset params)
       (assign_number ''limit'' (SikkaPaymentTypeListParams.limit params)
         (assign_flag ''are_credit_card_details_required''
            (are_credit_card_details_required params)
           (assign_flag ''is_insurance_type'' (is_insurance_type params)
             (assign_flag ''is_debit_adjustment_type'' (is_debit_adjustment_type params)
               (assign_flag ''is_adjustment_type'' (is_adjustment_type params)
                 (assign_text ''practice_id'' (practice_id params)
                   (assign_text ''customer_id'' (customer_id params)
                     (assign_text ''code'' (code params) []))))))))"

definition paymentTypes_list ::
  "('t, 'p, 'b) Platform \<Rightarrow> SikkaClient \<Rightarrow> SikkaPaymentTypeListParams \<Rightarrow> ('t list, 'b) outcome" where
  "paymentTypes_list env c params =
     response_items (get env c ''/v4/payment_types'' (Some (paymentTypes_queryParams params)))"

definition transactions_queryParams :: "SikkaTransactionListParams \<Rightarrow> (string \<times> string) list" where
  "transactions_queryParams params =
     assign_number ''offset'' (SikkaTransactionListParams.offset params)
       (assign_number ''limit'' (SikkaTransactionListParams.limit params)
         (assign_text ''transaction_type'' (SikkaTransactionListParams.transaction_type params)
           (assign_text ''patient_id'' (SikkaTransactionListParams.patient_id params)
             (assign_text ''claim_sr_no'' (SikkaTransactionListParams.claim_sr_no params) []))))"

definition transactions_list ::
  "('z SikkaTransaction_scheme, 'p, 'b) Platform \<Rightarrow> SikkaClient \<Rightarrow> SikkaTransactionListParams
    \<Rightarrow> ('z SikkaTransaction_scheme list, 'b) outcome" where
  "transactions_list env c params =
     response_items (get env c ''/v4/transactions'' (Some (transactions_queryParams params)))"

definition listProcedures ::
  "('z SikkaTransaction_scheme, 'p, 'b) Platform \<Rightarrow> SikkaClient \<Rightarrow> string
    \<Rightarrow> ('z SikkaTransaction_scheme list, 'b) outcome" where
  "listProcedures env c claimSrNo =
     (case transactions_list env c
             \<lparr>claim_sr_no = Some claimSrNo, limit = None, offset = None,
              patient_id = None, transaction_type = None\<rparr> of
        (Inl e, c', sent) \<Rightarrow> (Inl e, c', sent)
      | (Inr transactions, c', sent) \<Rightarrow>
          (Inr (filter (\<lambda>txn. SikkaTransaction.transaction_type txn = ''Procedure'') transactions),
           c', sent))"

definition claimPayment_post ::
  "('t, 'p, 'b) Platform \<Rightarrow> SikkaClient \<Rightarrow> 'b \<Rightarrow> ('p, 'b) outcome" where
  "claimPayment_post env c request = post env c ''/v4/claim_payment'' request"

section \<open>Runs of a client\<close>

text \<open>
  The calls that can change the session, each with the platform it runs on. The
  accessors change it only through \<^verbatim>\<open>get\<close> and \<^verbatim>\<open>post\<close>; \<^verbatim>\<open>getRequestKey\<close> and
  \<^verbatim>\<open>isAuthenticated\<close> only read it.
\<close>

datatype 'b Call =
    Authenticate
  | ClearAuth
  | EnsureAuthenticated
  | Get string "(string \<times> string) list option"
  | Post string 'b
  | RefreshAuthentication



section \<open>Fixtures (client.test.ts)\<close>

text \<open>
  Concrete values, after the test suite of the client: the mock credentials, a clock
  fixed at 2024-01-01T00:00:00Z, the dates that the end times used below denote, a key
  response with a chosen request key and end time, and a platform whose \<^verbatim>\<open>fetch\<close>
  answers the key endpoint with one reply and every other request with another. Body
  texts are abbreviated to \<open>{...}\<close>; the parsed values stand beside them.
\<close>

definition testBaseUrl :: string where
  "testBaseUrl = ''https://api.sikkasoft.com''"

definition mockCredentials :: SikkaClientCredentials where
  "mockCredentials =
     \<lparr>appId = ''test-app-id'', appKey = ''test-app-key'',
      officeId = ''test-office-id'', secretKey = ''test-secret-key''\<rparr>"

definition mockConfig :: SikkaClientConfig where
  "mockConfig =
     \<lparr>SikkaClientConfig.baseUrl = Some testBaseUrl,
      SikkaClientConfig.credentials = mockCredentials\<rparr>"

definition mockNow :: int where
  "mockNow = 1704067200000"

definition mockDates :: "string \<Rightarrow> Date" where
  "mockDates s =
     (if s = ''2024-01-02T00:00:00.000Z'' then TimeValue 1704153600000
      else if s = ''2024-01-01T02:00:00.000Z'' then TimeValue 1704074400000
      else if s = ''2024-01-01T00:30:00.000Z'' then TimeValue 1704069000000
      else if s = ''2023-12-31T23:00:00.000Z'' then TimeValue 1704063600000
      else InvalidDate)"

definition createRequestKeyResponse :: "string \<Rightarrow> string \<Rightarrow> SikkaRequestKeyResponse" where
  "createRequestKeyResponse key endTime =
     \<lparr>domain = ''test-domain'', end_time = Text endTime, expires_in = ''86400'',
      href = ''https://api.sikkasoft.com/v4/request_key'', issued_to = ''test-office-id'',
      refresh_key = Text ''test-refresh-key'', request_count = ''0'',
      request_key = Text key, scope = ''full'',
      start_time = ''2024-01-01T00:00:00.000Z'', status = ''active''\<rparr>"

type_synonym MockResponse = "(SikkaTransaction, string) Response"

type_synonym MockPlatform = "(SikkaTransaction, string, (string \<times> string) list) Platform"

definition mockResponse :: MockResponse where
  "mockResponse =
     \<lparr>ok = True, status = 200, statusText = ''OK'', bodyText = [],
      json_key = None, json_error = None, json_get = None, json_post = None\<rparr>"

definition mockPlatform :: "(error + MockResponse) \<Rightarrow> (error + MockResponse) \<Rightarrow> MockPlatform" where
  "mockPlatform keyReply apiReply =
     \<lparr>fetch = (\<lambda>req. case resource req of Href s \<Rightarrow> keyReply | Url s ps \<Rightarrow> apiReply),
      Date_now = mockNow, Date_parse = mockDates, new_URL = (\<lambda>s. Inr [])\<rparr>"

definition keyGranted :: "string \<Rightarrow> string \<Rightarrow> MockResponse" where
  "keyGranted key endTime =
     mockResponse\<lparr>bodyText := ''{...}'', json_key := Some (createRequestKeyResponse key endTime)\<rparr>"

definition grantingPlatform :: "string \<Rightarrow> string \<Rightarrow> MockPlatform" where
  "grantingPlatform key endTime = mockPlatform (Inr (keyGranted key endTime)) (Inr mockResponse)"

definition authenticatedClient :: "string \<Rightarrow> string \<Rightarrow> SikkaClient" where
  "authenticatedClient key endTime =
     fst (snd (authenticate (grantingPlatform key endTime) (new_SikkaClient mockConfig)))"

text \<open>A key response, status 200, whose \<open>request_key\<close> is \<^verbatim>\<open>null\<close>.\<close>

definition keyGrantedNull :: "string \<Rightarrow> MockResponse" where
  "keyGrantedNull endTime =
     mockResponse
       \<lparr>bodyText := ''{...}'',
        json_key := Some ((createRequestKeyResponse [] endTime)\<lparr>request_key := Null\<rparr>)\<rparr>"

definition keyDenied :: MockResponse where
  "keyDenied =
     \<lparr>ok = False, status = 401, statusText = ''Unauthorized'', bodyText = ''{...}'',
      json_key = None,
      json_error = Some \<lparr>error = Some ''invalid_credentials'',
                          error_description = Some ''Invalid secret key'',
                          message = None\<rparr>,
      json_get = None, json_post = None\<rparr>"

definition denyingPlatform :: MockPlatform where
  "denyingPlatform = mockPlatform (Inr keyDenied) (Inr mockResponse)"

definition keyUnavailable :: MockResponse where
  "keyUnavailable =
     \<lparr>ok = False, status = 500, statusText = ''Internal Server Error'',
      bodyText = ''<html>'', json_key = None, json_error = None, json_get = None,
      json_post = None\<rparr>"

definition blankResponse :: MockResponse where
  "blankResponse = mockResponse\<lparr>bodyText := [CHR '' '', CHR 0x0A]\<rparr>"

definition mockTransactions :: "SikkaTransaction list" where
  "mockTransactions =
     [\<lparr>amount = ''100.00'', claim_sr_no = ''123'', procedure_code = ''D0120'',
       transaction_sr_no = ''1'', transaction_type = ''Procedure''\<rparr>,
      \<lparr>amount = ''-50.00'', claim_sr_no = ''123'', procedure_code = [],
       transaction_sr_no = ''2'', transaction_type = ''Payment''\<rparr>]"

definition transactionsResponse :: MockResponse where
  "transactionsResponse =
     mockResponse
       \<lparr>bodyText := ''{...}'',
        json_get := Some \<lparr>execution_time = Some ''0.1s'', items = mockTransactions,
                           limit = Some ''100'', offset = Some ''0'',
                           pagination = Some (''1'', ''1'', ''1'', [], []),
                           total_count = Some ''2''\<rparr>\<rparr>"

section \<open>Effect of the operations on the session\<close>

lemmas fixtures = testBaseUrl_def mockCredentials_def mockConfig_def mockNow_def mockDates_def
  createRequestKeyResponse_def mockResponse_def mockPlatform_def keyGranted_def
  grantingPlatform_def authenticatedClient_def
  keyGrantedNull_def keyDenied_def denyingPlatform_def keyUnavailable_def blankResponse_def
  mockTransactions_def transactionsResponse_def

lemmas ops = new_SikkaClient_def authenticate_def requestNewKey_def requestNewKey_request_def
  authenticate_requestBody_def storeKey_def JSON_parse_def trim_def isWhiteSpace_def
  refreshAuthentication_def refreshAuthentication_requestBody_def truthy_def ensureAuthenticated_def
  getRequestKey_def isAuthenticated_def Date_gt_def clearAuth_def SIKKA_BASE_URL_def

















lemma truthy_iff: "truthy v = (v \<noteq> None \<and> v \<noteq> Some [])"
  by (cases v) (simp_all add: truthy_def)

lemma requestNewKey_sent:
  "snd (requestNewKey env c requestBody) = [requestNewKey_request c requestBody]"
  by (simp add: requestNewKey_def Let_def split: sum.splits)

lemma refreshAuthentication_sent:
  "snd (snd (refreshAuthentication env c)) =
     (if truthy (refreshKey c)
      then [requestNewKey_request c (refreshAuthentication_requestBody c)] else [])"
  using requestNewKey_sent [of env c "refreshAuthentication_requestBody c"]
  by (auto simp: refreshAuthentication_def Let_def split: prod.splits sum.splits)

lemmas dispatch = get_def get_request_def get_query_def post_def post_request_def Let_def
  empty_items_def

lemma requestNewKey_denied:
  assumes "fetch env (requestNewKey_request c requestBody) = Inr response" and "\<not> ok response"
  shows "requestNewKey env c requestBody =
           (Inl (Error (''Sikka authentication failed: '' @ errorMessage response)),
            [requestNewKey_request c requestBody])"
  using assms by (simp add: requestNewKey_def Let_def)

lemma trim_Nil_iff: "(trim s = []) = (\<forall>ch\<in>set s. isWhiteSpace ch)"
proof
  assume "trim s = []"
  then have "\<forall>ch\<in>set (dropWhile isWhiteSpace s). isWhiteSpace ch"
    by (simp add: trim_def dropWhile_eq_Nil_conv)
  then have "dropWhile isWhiteSpace s = []"
    using hd_dropWhile [of isWhiteSpace s] hd_in_set [of "dropWhile isWhiteSpace s"] by blast
  then show "\<forall>ch\<in>set s. isWhiteSpace ch"
    by (simp add: dropWhile_eq_Nil_conv)
next
  assume "\<forall>ch\<in>set s. isWhiteSpace ch"
  then have "dropWhile isWhiteSpace s = []"
    by (simp add: dropWhile_eq_Nil_conv)
  then have "trim s = rev (dropWhile isWhiteSpace (rev []))"
    by (simp only: trim_def)
  then show "trim s = []" by simp
qed

lemma get_dispatch:
  assumes "ensureAuthenticated env c = (Inr (), c', sent)"
    and "getRequestKey c' = Inr key"
    and "new_URL env (baseUrl c' @ endpoint) = Inr initial"
  shows "get env c endpoint params =
           (case fetch env (get_request c' key initial endpoint params) of
              Inl e \<Rightarrow> (Inl e, c', sent @ [get_request c' key initial endpoint params])
            | Inr response \<Rightarrow>
                if \<not> ok response
                then (Inl (Error (''Sikka API GET '' @ endpoint @ '' failed: ''
                        @ String_nat (status response) @ '' ''
                        @ statusText response @ '' - '' @ bodyText response)),
                      c', sent @ [get_request c' key initial endpoint params])
                else if trim (bodyText response) = []
                then (Inr empty_items, c', sent @ [get_request c' key initial endpoint params])
                else (JSON_parse json_get response, c',
                      sent @ [get_request c' key initial endpoint params]))"
proof -
  have "trim [] = []" by (simp add: trim_def)
  then show ?thesis
    using assms by (auto simp: get_def Let_def split: sum.splits)
qed

lemma post_dispatch:
  assumes "ensureAuthenticated env c = (Inr (), c', sent)"
    and "getRequestKey c' = Inr key"
    and "new_URL env (baseUrl c' @ endpoint) = Inr initial"
  shows "post env c endpoint payload =
           (case fetch env (post_request c' key initial endpoint payload) of
              Inl e \<Rightarrow> (Inl e, c', sent @ [post_request c' key initial endpoint payload])
            | Inr response \<Rightarrow>
                if \<not> ok response
                then (Inl (Error (''Sikka API POST '' @ endpoint @ '' failed: ''
                        @ String_nat (status response) @ '' ''
                        @ statusText response @ '' - '' @ bodyText response)),
                      c', sent @ [post_request c' key initial endpoint payload])
                else (JSON_parse json_post response, c',
                      sent @ [post_request c' key initial endpoint payload]))"
  using assms by (simp add: post_def Let_def)

lemma map_of_filter_other:
  "map_of (filter (\<lambda>q. fst q \<noteq> k) ps) k' = (if k' = k then None else map_of ps k')"
  by (induction ps) auto

lemma map_of_searchParams_set:
  "map_of (searchParams_set k v ps) k' = (if k' = k then Some v else map_of ps k')"
  by (induction ps) (auto simp: map_of_filter_other)

lemma map_of_fold_searchParams_set:
  "map_of (fold (\<lambda>(k, v). searchParams_set k v) entries ps) k' =
     (case map_of (rev entries) k' of Some v \<Rightarrow> Some v | None \<Rightarrow> map_of ps k')"
proof (induction entries arbitrary: ps)
  case Nil
  then show ?case by simp
next
  case (Cons e entries)
  obtain k v where e: "e = (k, v)" by (cases e)
  show ?case
    by (simp add: e Cons.IH map_of_searchParams_set map_add_def split: option.splits)
qed

lemma get_sent:
  assumes "ensureAuthenticated env c = (Inr (), c', sent)"
    and "getRequestKey c' = Inr key"
    and "new_URL env (baseUrl c' @ endpoint) = Inr initial"
  shows "snd (snd (get env c endpoint params))
           = sent @ [get_request c' key initial endpoint params]"
  by (simp add: get_dispatch [OF assms] split: sum.splits)

lemma response_items_sent: "snd (snd (response_items out)) = snd (snd out)"
  by (cases out) (auto simp: response_items_def split: sum.splits)

lemma ensureAuthenticated_refresh_fails:
  assumes "requestKey c \<noteq> None" and "requestKey c \<noteq> Some []"
    and "requestKeyExpiresAt c = Some (TimeValue t)"
    and "t < Date_now env + 3600000"
    and "refreshAuthentication env c = (Inl e, c', sent)"
  shows "ensureAuthenticated env c = (Inl e, c', sent)"
    and "sent = [] \<or> sent = [requestNewKey_request c (refreshAuthentication_requestBody c)]"
proof -
  show "ensureAuthenticated env c = (Inl e, c', sent)"
    using assms by (simp add: ensureAuthenticated_def truthy_iff)
  show "sent = [] \<or> sent = [requestNewKey_request c (refreshAuthentication_requestBody c)]"
    using refreshAuthentication_sent [of env c] assms(5) by (simp split: if_splits)
qed

lemma get_unauthenticated:
  assumes "ensureAuthenticated env c = (Inl e, c', sent)"
  shows "get env c endpoint params = (Inl e, c', sent)"
  using assms by (simp add: get_def)

lemma post_unauthenticated:
  assumes "ensureAuthenticated env c = (Inl e, c', sent)"
  shows "post env c endpoint payload = (Inl e, c', sent)"
  using assms by (simp add: post_def)

section \<open>The session triple\<close>




section \<open>The lazy refresh trigger\<close>

text \<open>
  A client whose key endpoint granted the empty text as request key holds a token that
  is not \<^verbatim>\<open>null\<close> and an expiry a day away, yet \<^verbatim>\<open>ensureAuthenticated\<close> raises: the
  guard \<^verbatim>\<open>!this.requestKey\<close> reads the empty text as absent.
\<close>

theorem ensureAuthenticated_token_counterexample:
  "requestKey (authenticatedClient [] ''2024-01-02T00:00:00.000Z'') = Some []
   \<and> requestKeyExpiresAt (authenticatedClient [] ''2024-01-02T00:00:00.000Z'')
       = Some (TimeValue 1704153600000)
   \<and> \<not> 1704153600000 < Date_now (grantingPlatform ''k'' ''2024-01-02T00:00:00.000Z'') + 60 * 60 * 1000
   \<and> ensureAuthenticated (grantingPlatform ''k'' ''2024-01-02T00:00:00.000Z'')
         (authenticatedClient [] ''2024-01-02T00:00:00.000Z'')
       = (Inl (Error ''Not authenticated. Call authenticate() first.''),
          authenticatedClient [] ''2024-01-02T00:00:00.000Z'', [])"
  by (simp add: fixtures ops)

text \<open>
  C2 (as amended). \<^verbatim>\<open>ensureAuthenticated\<close> raises \<open>Not authenticated\<close>, with no request, when
  the token is \<^verbatim>\<open>null\<close> or the empty text. With a non-empty token it does exactly what
  one call of \<^verbatim>\<open>refreshAuthentication\<close> does if the expiry is set, is a valid date and
  lies less than one hour after the clock reading, and otherwise returns with the session
  unchanged and no request; one refresh sends at most one request.
\<close>

theorem ensureAuthenticated_lazy_refresh:
  "ensureAuthenticated env c =
     (if requestKey c = None \<or> requestKey c = Some []
      then (Inl (Error ''Not authenticated. Call authenticate() first.''), c, [])
      else if (\<exists>t. requestKeyExpiresAt c = Some (TimeValue t) \<and> t < Date_now env + 3600000)
      then refreshAuthentication env c
      else (Inr (), c, []))
   \<and> length (snd (snd (refreshAuthentication env c))) \<le> 1"
proof
  show "ensureAuthenticated env c =
     (if requestKey c = None \<or> requestKey c = Some []
      then (Inl (Error ''Not authenticated. Call authenticate() first.''), c, [])
      else if (\<exists>t. requestKeyExpiresAt c = Some (TimeValue t) \<and> t < Date_now env + 3600000)
      then refreshAuthentication env c
      else (Inr (), c, []))"
  proof (cases "requestKeyExpiresAt c")
    case None
    then show ?thesis
      by (auto simp: ensureAuthenticated_def truthy_iff)
  next
    case (Some d)
    then show ?thesis
      by (cases d) (auto simp: ensureAuthenticated_def truthy_iff)
  qed
  show "length (snd (snd (refreshAuthentication env c))) \<le> 1"
    by (simp add: refreshAuthentication_sent)
qed

theorem ensureAuthenticated_lazy_refresh_witness:
  "ensureAuthenticated (grantingPlatform ''new-request-key'' ''2024-01-02T00:00:00.000Z'')
       (authenticatedClient ''test-request-key'' ''2024-01-01T00:30:00.000Z'')
     = refreshAuthentication (grantingPlatform ''new-request-key'' ''2024-01-02T00:00:00.000Z'')
         (authenticatedClient ''test-request-key'' ''2024-01-01T00:30:00.000Z'')
   \<and> map httpMethod (snd (snd (ensureAuthenticated
         (grantingPlatform ''new-request-key'' ''2024-01-02T00:00:00.000Z'')
         (authenticatedClient ''test-request-key'' ''2024-01-01T00:30:00.000Z''))))
       = [''POST'']
   \<and> requestKey (fst (snd (ensureAuthenticated
         (grantingPlatform ''new-request-key'' ''2024-01-02T00:00:00.000Z'')
         (authenticatedClient ''test-request-key'' ''2024-01-01T00:30:00.000Z''))))
       = Some ''new-request-key''
   \<and> map resource (snd (snd (get
         (grantingPlatform ''new-request-key'' ''2024-01-02T00:00:00.000Z'')
         (authenticatedClient ''test-request-key'' ''2024-01-01T00:30:00.000Z'')
         ''/v4/patients'' None)))
       = [Href ''https://api.sikkasoft.com/v4/request_key'',
          Url ''https://api.sikkasoft.com/v4/patients'' [(''request_key'', ''new-request-key'')]]
   \<and> ensureAuthenticated (grantingPlatform ''new-request-key'' ''2024-01-02T00:00:00.000Z'')
       (authenticatedClient ''test-request-key'' ''2024-01-01T02:00:00.000Z'')
     = (Inr (), authenticatedClient ''test-request-key'' ''2024-01-01T02:00:00.000Z'', [])
   \<and> map resource (snd (snd (get
         (grantingPlatform ''new-request-key'' ''2024-01-02T00:00:00.000Z'')
         (authenticatedClient ''test-request-key'' ''2024-01-01T02:00:00.000Z'')
         ''/v4/patients'' None)))
       = [Url ''https://api.sikkasoft.com/v4/patients'' [(''request_key'', ''test-request-key'')]]
   \<and> ensureAuthenticated (grantingPlatform ''new-request-key'' ''2024-01-02T00:00:00.000Z'')
       (new_SikkaClient mockConfig)
     = (Inl (Error ''Not authenticated. Call authenticate() first.''), new_SikkaClient mockConfig, [])"
  using
    ensureAuthenticated_lazy_refresh
      [of "grantingPlatform ''new-request-key'' ''2024-01-02T00:00:00.000Z''"
          "authenticatedClient ''test-request-key'' ''2024-01-01T00:30:00.000Z''"]
    ensureAuthenticated_lazy_refresh
      [of "grantingPlatform ''new-request-key'' ''2024-01-02T00:00:00.000Z''"
          "authenticatedClient ''test-request-key'' ''2024-01-01T02:00:00.000Z''"]
    ensureAuthenticated_lazy_refresh
      [of "grantingPlatform ''new-request-key'' ''2024-01-02T00:00:00.000Z''"
          "new_SikkaClient mockConfig"]
  by (simp add: fixtures ops dispatch)

section \<open>The liveness check\<close>

text \<open>
  With the empty text as token and an expiry a day away, \<^verbatim>\<open>isAuthenticated\<close> is false
  although the token is not \<^verbatim>\<open>null\<close> and the expiry is after the clock reading.
\<close>

theorem isAuthenticated_token_counterexample:
  "requestKey (authenticatedClient [] ''2024-01-02T00:00:00.000Z'') = Some []
   \<and> requestKeyExpiresAt (authenticatedClient [] ''2024-01-02T00:00:00.000Z'')
       = Some (TimeValue 1704153600000)
   \<and> Date_now (grantingPlatform ''k'' ''2024-01-02T00:00:00.000Z'') < 1704153600000
   \<and> \<not> isAuthenticated (grantingPlatform ''k'' ''2024-01-02T00:00:00.000Z'')
         (authenticatedClient [] ''2024-01-02T00:00:00.000Z'')"
  by (simp add: fixtures ops)

text \<open>
  C3 (as amended). \<^verbatim>\<open>isAuthenticated\<close> is true exactly when the token is set and not the
  empty text and the expiry is a valid date strictly after the clock reading; there is no
  margin (an expiry thirty minutes away still gives true, a past one false).
\<close>

theorem isAuthenticated_point_in_time:
  "isAuthenticated env c =
     (\<exists>k t. requestKey c = Some k \<and> k \<noteq> [] \<and> requestKeyExpiresAt c = Some (TimeValue t)
            \<and> Date_now env < t)"
proof (cases "requestKeyExpiresAt c")
  case None
  then show ?thesis by (simp add: isAuthenticated_def)
next
  case (Some d)
  then show ?thesis
    by (cases d; cases "requestKey c") (auto simp: isAuthenticated_def truthy_def Date_gt_def)
qed

theorem isAuthenticated_point_in_time_witness:
  "isAuthenticated (grantingPlatform ''k'' ''2024-01-02T00:00:00.000Z'')
     (authenticatedClient ''test-request-key'' ''2024-01-02T00:00:00.000Z'')
   \<and> isAuthenticated (grantingPlatform ''k'' ''2024-01-02T00:00:00.000Z'')
     (authenticatedClient ''test-request-key'' ''2024-01-01T00:30:00.000Z'')
   \<and> \<not> isAuthenticated (grantingPlatform ''k'' ''2024-01-02T00:00:00.000Z'')
     (authenticatedClient ''test-request-key'' ''2023-12-31T23:00:00.000Z'')
   \<and> \<not> isAuthenticated (grantingPlatform ''k'' ''2024-01-02T00:00:00.000Z'')
     (new_SikkaClient mockConfig)"
  using
    isAuthenticated_point_in_time
      [of "grantingPlatform ''k'' ''2024-01-02T00:00:00.000Z''"
          "authenticatedClient ''test-request-key'' ''2024-01-02T00:00:00.000Z''"]
    isAuthenticated_point_in_time
      [of "grantingPlatform ''k'' ''2024-01-02T00:00:00.000Z''"
          "authenticatedClient ''test-request-key'' ''2024-01-01T00:30:00.000Z''"]
    isAuthenticated_point_in_time
      [of "grantingPlatform ''k'' ''2024-01-02T00:00:00.000Z''"
          "authenticatedClient ''test-request-key'' ''2023-12-31T23:00:00.000Z''"]
    isAuthenticated_point_in_time
      [of "grantingPlatform ''k'' ''2024-01-02T00:00:00.000Z''" "new_SikkaClient mockConfig"]
  by (simp add: fixtures ops)

section \<open>Empty bodies\<close>

text \<open>
  C4. For an authenticated request whose response is successful with a body that is
  empty or white space only: \<^verbatim>\<open>get\<close> returns the envelope with no items, whatever the
  body would parse to; \<^verbatim>\<open>post\<close> parses the body and fails with the parse error.
\<close>

theorem empty_body_tolerance:
  assumes "ensureAuthenticated env c = (Inr (), c', sent)"
    and "getRequestKey c' = Inr key"
    and "new_URL env (baseUrl c' @ endpoint) = Inr initial"
    and "ok response"
    and "\<forall>ch\<in>set (bodyText response). isWhiteSpace ch"
  shows "(fetch env (get_request c' key initial endpoint params) = Inr response
           \<longrightarrow> get env c endpoint params
                 = (Inr empty_items, c', sent @ [get_request c' key initial endpoint params])
               \<and> length (items (empty_items :: 't SikkaPaginatedResponse)) = 0)
       \<and> (fetch env (post_request c' key initial endpoint payload) = Inr response
           \<longrightarrow> post env c endpoint payload
                 = (Inl SyntaxError, c', sent @ [post_request c' key initial endpoint payload]))"
proof -
  have blank: "trim (bodyText response) = []"
    using assms(5) by (simp add: trim_Nil_iff)
  have g: "fetch env (get_request c' key initial endpoint params) = Inr response
           \<longrightarrow> get env c endpoint params
                 = (Inr empty_items, c', sent @ [get_request c' key initial endpoint params])"
    using assms(4) blank by (simp add: get_dispatch [OF assms(1,2,3)])
  have e: "length (items (empty_items :: 't SikkaPaginatedResponse)) = 0"
    by (simp add: empty_items_def)
  have p: "fetch env (post_request c' key initial endpoint payload) = Inr response
           \<longrightarrow> post env c endpoint payload
                 = (Inl SyntaxError, c', sent @ [post_request c' key initial endpoint payload])"
    using assms(4) blank by (simp add: post_dispatch [OF assms(1,2,3)] JSON_parse_def)
  from g e p show ?thesis by blast
qed

theorem empty_body_tolerance_witness:
  "ensureAuthenticated (mockPlatform (Inl TypeError) (Inr blankResponse))
       (authenticatedClient ''test-request-key'' ''2024-01-02T00:00:00.000Z'')
     = (Inr (), authenticatedClient ''test-request-key'' ''2024-01-02T00:00:00.000Z'', [])
   \<and> ok blankResponse
   \<and> bodyText blankResponse = [CHR '' '', CHR 0x0A]
   \<and> trim (bodyText blankResponse) = []
   \<and> get (mockPlatform (Inl TypeError) (Inr blankResponse))
         (authenticatedClient ''test-request-key'' ''2024-01-02T00:00:00.000Z'')
         ''/v4/patients'' None
       = (Inr empty_items, authenticatedClient ''test-request-key'' ''2024-01-02T00:00:00.000Z'',
          [get_request (authenticatedClient ''test-request-key'' ''2024-01-02T00:00:00.000Z'')
             ''test-request-key'' [] ''/v4/patients'' None])
   \<and> post (mockPlatform (Inl TypeError) (Inr blankResponse))
         (authenticatedClient ''test-request-key'' ''2024-01-02T00:00:00.000Z'')
         ''/v4/claim_payment'' [(''claim_sr_no'', ''123'')]
       = (Inl SyntaxError, authenticatedClient ''test-request-key'' ''2024-01-02T00:00:00.000Z'',
          [post_request (authenticatedClient ''test-request-key'' ''2024-01-02T00:00:00.000Z'')
             ''test-request-key'' [] ''/v4/claim_payment'' [(''claim_sr_no'', ''123'')]])
   \<and> fst (get (mockPlatform (Inl TypeError) (Inr mockResponse))
         (authenticatedClient ''test-request-key'' ''2024-01-02T00:00:00.000Z'')
         ''/v4/patients'' None)
       = Inr empty_items"
proof -
  let ?P = "mockPlatform (Inl TypeError) (Inr blankResponse)"
  let ?Q = "mockPlatform (Inl TypeError) (Inr mockResponse)"
  let ?c = "authenticatedClient ''test-request-key'' ''2024-01-02T00:00:00.000Z''"
  have h1: "ensureAuthenticated ?P ?c = (Inr (), ?c, [])"
    by (simp add: fixtures ops)
  have h2: "getRequestKey ?c = Inr ''test-request-key''"
    by (simp add: fixtures ops)
  have h3: "new_URL ?P (baseUrl ?c @ ''/v4/patients'') = Inr []"
    by (simp add: fixtures)
  have h3': "new_URL ?P (baseUrl ?c @ ''/v4/claim_payment'') = Inr []"
    by (simp add: fixtures)
  have h4: "ok blankResponse"
    by (simp add: fixtures)
  have h5: "\<forall>ch\<in>set (bodyText blankResponse). isWhiteSpace ch"
    by (simp add: fixtures isWhiteSpace_def)
  have k1: "ensureAuthenticated ?Q ?c = (Inr (), ?c, [])"
    by (simp add: fixtures ops)
  have k3: "new_URL ?Q (baseUrl ?c @ ''/v4/patients'') = Inr []"
    by (simp add: fixtures)
  have k4: "ok mockResponse"
    by (simp add: fixtures)
  have k5: "\<forall>ch\<in>set (bodyText mockResponse). isWhiteSpace ch"
    by (simp add: fixtures)
  have f1: "fetch ?P (get_request ?c ''test-request-key'' [] ''/v4/patients'' None)
              = Inr blankResponse"
    by (simp add: mockPlatform_def get_request_def)
  have f2: "fetch ?P (post_request ?c ''test-request-key'' [] ''/v4/claim_payment''
              [(''claim_sr_no'', ''123'')]) = Inr blankResponse"
    by (simp add: mockPlatform_def post_request_def)
  have f3: "fetch ?Q (get_request ?c ''test-request-key'' [] ''/v4/patients'' None)
              = Inr mockResponse"
    by (simp add: mockPlatform_def get_request_def)
  note t1 = empty_body_tolerance [OF h1 h2 h3 h4 h5, of None "[(''claim_sr_no'', ''123'')]"]
  note t2 = empty_body_tolerance [OF h1 h2 h3' h4 h5, of None "[(''claim_sr_no'', ''123'')]"]
  note t3 = empty_body_tolerance [OF k1 h2 k3 k4 k5, of None "[(''claim_sr_no'', ''123'')]"]
  have r1: "get ?P ?c ''/v4/patients'' None
       = (Inr empty_items, ?c, [] @ [get_request ?c ''test-request-key'' [] ''/v4/patients'' None])"
    using t1 [THEN conjunct1, THEN mp, OF f1] by (rule conjunct1)
  have r2: "post ?P ?c ''/v4/claim_payment'' [(''claim_sr_no'', ''123'')]
       = (Inl SyntaxError, ?c,
          [] @ [post_request ?c ''test-request-key'' [] ''/v4/claim_payment'' [(''claim_sr_no'', ''123'')]])"
    using t2 [THEN conjunct2] f2 by (rule mp)
  have r3: "get ?Q ?c ''/v4/patients'' None
       = (Inr empty_items, ?c, [] @ [get_request ?c ''test-request-key'' [] ''/v4/patients'' None])"
    using t3 [THEN conjunct1, THEN mp, OF f3] by (rule conjunct1)
  have h6: "bodyText blankResponse = [CHR '' '', CHR 0x0A]"
    by (simp add: fixtures)
  have h7: "trim (bodyText blankResponse) = []"
    using h5 by (simp only: trim_Nil_iff)
  show ?thesis
    using h1 h4 h6 h7 r1 r2 r3 by simp
qed

section \<open>Failed authentication\<close>

text \<open>
  A key endpoint answering 401 with \<open>error_description\<close> \<open>Invalid secret key\<close>: the
  message of the error that \<^verbatim>\<open>authenticate\<close> raises is not that text alone.
\<close>

theorem authenticate_message_counterexample:
  "fetch denyingPlatform
       (requestNewKey_request (new_SikkaClient mockConfig)
          (authenticate_requestBody (new_SikkaClient mockConfig))) = Inr keyDenied
   \<and> \<not> ok keyDenied
   \<and> JSON_parse json_error keyDenied
       = Inr \<lparr>error = Some ''invalid_credentials'',
               error_description = Some ''Invalid secret key'', message = None\<rparr>
   \<and> fst (authenticate denyingPlatform (new_SikkaClient mockConfig))
       = Inl (Error ''Sikka authentication failed: Invalid secret key'')
   \<and> fst (authenticate denyingPlatform (new_SikkaClient mockConfig))
       \<noteq> Inl (Error ''Invalid secret key'')"
  by (simp add: fixtures ops errorMessage_def)

text \<open>
  C5 (as amended). When the key endpoint answers without success, \<^verbatim>\<open>authenticate\<close> (and
  \<^verbatim>\<open>refreshAuthentication\<close>, once past its refresh-key guard) raises an error whose
  message is \<open>Sikka authentication failed: \<close> followed by the body's
  \<open>error_description\<close> if present, else its \<open>error\<close>, else its \<open>message\<close>, else the
  status code, a space and the reason phrase; the last is also used when the body cannot
  be read as JSON. The session is unchanged, so a new client is still not authenticated.
\<close>

theorem authentication_failure_message:
  assumes "fetch env (requestNewKey_request c requestBody) = Inr response"
    and "\<not> ok response"
  shows "(requestBody = authenticate_requestBody c
            \<longrightarrow> authenticate env c =
                  (Inl (Error (''Sikka authentication failed: '' @ errorMessage response)), c,
                   [requestNewKey_request c requestBody]))
       \<and> (requestBody = refreshAuthentication_requestBody c \<and> refreshKey c \<noteq> None
            \<and> refreshKey c \<noteq> Some []
            \<longrightarrow> refreshAuthentication env c =
                  (Inl (Error (''Sikka authentication failed: '' @ errorMessage response)), c,
                   [requestNewKey_request c requestBody]))
       \<and> (\<forall>b d. JSON_parse json_error response = Inr b \<and> error_description b = Some d
            \<longrightarrow> errorMessage response = d)
       \<and> (\<forall>b e. JSON_parse json_error response = Inr b \<and> error_description b = None
              \<and> error b = Some e
            \<longrightarrow> errorMessage response = e)
       \<and> (\<forall>b m. JSON_parse json_error response = Inr b \<and> error_description b = None
              \<and> error b = None \<and> message b = Some m
            \<longrightarrow> errorMessage response = m)
       \<and> (\<forall>b. JSON_parse json_error response = Inr b \<and> error_description b = None
              \<and> error b = None \<and> message b = None
            \<longrightarrow> errorMessage response = String_nat (status response) @ '' '' @ statusText response)
       \<and> (\<forall>x. JSON_parse json_error response = Inl x
            \<longrightarrow> errorMessage response = String_nat (status response) @ '' '' @ statusText response)
       \<and> (c = new_SikkaClient config \<and> requestBody = authenticate_requestBody c
            \<longrightarrow> \<not> isAuthenticated env' (fst (snd (authenticate env c))))"
proof -
  have denied: "requestNewKey env c requestBody =
           (Inl (Error (''Sikka authentication failed: '' @ errorMessage response)),
            [requestNewKey_request c requestBody])"
    using assms by (rule requestNewKey_denied)
  have auth: "requestBody = authenticate_requestBody c
            \<longrightarrow> authenticate env c =
                  (Inl (Error (''Sikka authentication failed: '' @ errorMessage response)), c,
                   [requestNewKey_request c requestBody])"
    using denied by (auto simp: authenticate_def Let_def)
  have refr: "requestBody = refreshAuthentication_requestBody c \<and> refreshKey c \<noteq> None
            \<and> refreshKey c \<noteq> Some []
            \<longrightarrow> refreshAuthentication env c =
                  (Inl (Error (''Sikka authentication failed: '' @ errorMessage response)), c,
                   [requestNewKey_request c requestBody])"
    using denied by (auto simp: refreshAuthentication_def Let_def truthy_iff)
  have m1: "\<forall>b d. JSON_parse json_error response = Inr b \<and> error_description b = Some d
            \<longrightarrow> errorMessage response = d"
    by (simp add: errorMessage_def Let_def)
  have m2: "\<forall>b e. JSON_parse json_error response = Inr b \<and> error_description b = None
              \<and> error b = Some e
            \<longrightarrow> errorMessage response = e"
    by (simp add: errorMessage_def Let_def)
  have m3: "\<forall>b m. JSON_parse json_error response = Inr b \<and> error_description b = None
              \<and> error b = None \<and> message b = Some m
            \<longrightarrow> errorMessage response = m"
    by (simp add: errorMessage_def Let_def)
  have m4: "\<forall>b. JSON_parse json_error response = Inr b \<and> error_description b = None
              \<and> error b = None \<and> message b = None
            \<longrightarrow> errorMessage response = String_nat (status response) @ '' '' @ statusText response"
    by (simp add: errorMessage_def Let_def)
  have m5: "\<forall>x. JSON_parse json_error response = Inl x
            \<longrightarrow> errorMessage response = String_nat (status response) @ '' '' @ statusText response"
    by (simp add: errorMessage_def Let_def)
  have fresh: "c = new_SikkaClient config \<and> requestBody = authenticate_requestBody c
            \<longrightarrow> \<not> isAuthenticated env' (fst (snd (authenticate env c)))"
    using auth by (auto simp: isAuthenticated_def new_SikkaClient_def truthy_def)
  from auth refr m1 m2 m3 m4 m5 fresh show ?thesis by blast
qed

theorem authentication_failure_message_witness:
  "fetch denyingPlatform
       (requestNewKey_request (new_SikkaClient mockConfig)
          (authenticate_requestBody (new_SikkaClient mockConfig))) = Inr keyDenied
   \<and> \<not> ok keyDenied
   \<and> authenticate denyingPlatform (new_SikkaClient mockConfig)
       = (Inl (Error ''Sikka authentication failed: Invalid secret key''),
          new_SikkaClient mockConfig,
          [requestNewKey_request (new_SikkaClient mockConfig)
             (authenticate_requestBody (new_SikkaClient mockConfig))])
   \<and> \<not> isAuthenticated denyingPlatform
         (fst (snd (authenticate denyingPlatform (new_SikkaClient mockConfig))))
   \<and> fst (refreshAuthentication (mockPlatform (Inr keyUnavailable) (Inr mockResponse))
            (authenticatedClient ''test-request-key'' ''2024-01-01T00:30:00.000Z''))
       = Inl (Error ''Sikka authentication failed: 500 Internal Server Error'')"
  using
    authentication_failure_message
      [of denyingPlatform "new_SikkaClient mockConfig"
          "authenticate_requestBody (new_SikkaClient mockConfig)" keyDenied mockConfig
          denyingPlatform]
    authentication_failure_message
      [of "mockPlatform (Inr keyUnavailable) (Inr mockResponse)"
          "authenticatedClient ''test-request-key'' ''2024-01-01T00:30:00.000Z''"
          "refreshAuthentication_requestBody
             (authenticatedClient ''test-request-key'' ''2024-01-01T00:30:00.000Z'')"
          keyUnavailable mockConfig denyingPlatform]
  by (simp add: fixtures ops errorMessage_def String_nat.simps)

section \<open>Refresh without a refresh key\<close>

text \<open>
  On a new client the refresh raises, but its message is not the text
  \<open>no refresh token available\<close>.
\<close>

theorem refreshAuthentication_message_counterexample:
  "refreshKey (new_SikkaClient mockConfig) = None
   \<and> fst (refreshAuthentication (grantingPlatform ''k'' ''2024-01-02T00:00:00.000Z'')
            (new_SikkaClient mockConfig))
       = Inl (Error ''No refresh key available. Call authenticate() first.'')
   \<and> fst (refreshAuthentication (grantingPlatform ''k'' ''2024-01-02T00:00:00.000Z'')
            (new_SikkaClient mockConfig))
       \<noteq> Inl (Error ''no refresh token available'')"
  by (simp add: fixtures ops)

text \<open>
  C6 (as amended). When the refresh key is \<^verbatim>\<open>null\<close> (as on a client that never
  authenticated), \<^verbatim>\<open>refreshAuthentication\<close> raises an error with the message
  \<open>No refresh key available. Call authenticate() first.\<close>, sends no request and leaves
  the session as it was.
\<close>

theorem refreshAuthentication_precondition:
  assumes "refreshKey c = None"
  shows "refreshAuthentication env c =
           (Inl (Error ''No refresh key available. Call authenticate() first.''), c, [])"
  using assms by (simp add: refreshAuthentication_def truthy_def)

theorem refreshAuthentication_precondition_witness:
  "refreshKey (new_SikkaClient mockConfig) = None
   \<and> refreshAuthentication (grantingPlatform ''k'' ''2024-01-02T00:00:00.000Z'')
        (new_SikkaClient mockConfig)
       = (Inl (Error ''No refresh key available. Call authenticate() first.''),
          new_SikkaClient mockConfig, [])"
proof -
  have h: "refreshKey (new_SikkaClient mockConfig) = None"
    by (simp add: new_SikkaClient_def)
  show ?thesis
    using h refreshAuthentication_precondition
      [OF h, of "grantingPlatform ''k'' ''2024-01-02T00:00:00.000Z''"]
    by simp
qed

section \<open>Reading the request key\<close>

text \<open>
  With the empty text as token and an expiry in the past, \<^verbatim>\<open>getRequestKey\<close> raises
  although the token is not \<^verbatim>\<open>null\<close>.
\<close>

theorem getRequestKey_token_counterexample:
  "requestKey (authenticatedClient [] ''2023-12-31T23:00:00.000Z'') = Some []
   \<and> requestKeyExpiresAt (authenticatedClient [] ''2023-12-31T23:00:00.000Z'')
       = Some (TimeValue 1704063600000)
   \<and> 1704063600000 < Date_now (grantingPlatform ''k'' ''2024-01-02T00:00:00.000Z'')
   \<and> getRequestKey (authenticatedClient [] ''2023-12-31T23:00:00.000Z'')
       = Inl (Error ''Not authenticated. Call authenticate() first.'')"
  by (simp add: fixtures ops)

text \<open>
  C10 (as amended). \<^verbatim>\<open>getRequestKey\<close> checks the token only: with a non-empty token and an
  expiry in the past it returns the token while \<^verbatim>\<open>isAuthenticated\<close> is false; it raises
  exactly when the token is \<^verbatim>\<open>null\<close> or the empty text.
\<close>

theorem getRequestKey_ignores_expiry:
  "(requestKey c = Some k \<and> k \<noteq> [] \<and> requestKeyExpiresAt c = Some (TimeValue t)
      \<and> t < Date_now env
     \<longrightarrow> getRequestKey c = Inr k \<and> \<not> isAuthenticated env c)
   \<and> ((\<exists>e. getRequestKey c = Inl e) = (requestKey c = None \<or> requestKey c = Some []))"
  by (cases "requestKey c")
    (auto simp: getRequestKey_def isAuthenticated_def truthy_def Date_gt_def)

theorem getRequestKey_ignores_expiry_witness:
  "requestKey (authenticatedClient ''test-request-key'' ''2023-12-31T23:00:00.000Z'')
     = Some ''test-request-key''
   \<and> requestKeyExpiresAt (authenticatedClient ''test-request-key'' ''2023-12-31T23:00:00.000Z'')
     = Some (TimeValue 1704063600000)
   \<and> 1704063600000 < Date_now (grantingPlatform ''k'' ''2024-01-02T00:00:00.000Z'')
   \<and> getRequestKey (authenticatedClient ''test-request-key'' ''2023-12-31T23:00:00.000Z'')
     = Inr ''test-request-key''
   \<and> \<not> isAuthenticated (grantingPlatform ''k'' ''2024-01-02T00:00:00.000Z'')
         (authenticatedClient ''test-request-key'' ''2023-12-31T23:00:00.000Z'')
   \<and> getRequestKey (new_SikkaClient mockConfig)
     = Inl (Error ''Not authenticated. Call authenticate() first.'')"
  using
    getRequestKey_ignores_expiry
      [of "authenticatedClient ''test-request-key'' ''2023-12-31T23:00:00.000Z''"
          "''test-request-key''" 1704063600000
          "grantingPlatform ''k'' ''2024-01-02T00:00:00.000Z''"]
    getRequestKey_ignores_expiry
      [of "new_SikkaClient mockConfig" "''k''" 0
          "grantingPlatform ''k'' ''2024-01-02T00:00:00.000Z''"]
  by (simp add: fixtures ops)

section \<open>The query of a GET\<close>

text \<open>
  A caller of \<^verbatim>\<open>get\<close> that passes a parameter named \<open>request_key\<close>: the loop over the
  entries sets it after the token, so the query carries the caller's value, not the
  token.
\<close>

theorem get_query_counterexample:
  "getRequestKey (authenticatedClient ''test-request-key'' ''2024-01-02T00:00:00.000Z'')
     = Inr ''test-request-key''
   \<and> map resource (snd (snd (get (grantingPlatform ''k'' ''2024-01-02T00:00:00.000Z'')
         (authenticatedClient ''test-request-key'' ''2024-01-02T00:00:00.000Z'')
         ''/v4/patients'' (Some [(''request_key'', ''other-key'')]))))
       = [Url ''https://api.sikkasoft.com/v4/patients'' [(''request_key'', ''other-key'')]]"
  by (simp add: fixtures ops dispatch)

text \<open>
  C7 (as amended). For every authenticated \<^verbatim>\<open>get\<close> the request goes to base URL and path
  with the query built by setting \<open>request_key\<close> to the token and then each entry of
  the caller in turn: \<open>request_key\<close> is the token unless the caller passes a parameter
  of that name; each parameter of the caller (names distinct, as in an object) is there
  with the caller's value, whatever was there under that name; and
  \<^verbatim>\<open>patients.list({firstname: 'John'})\<close>, on a URL with no query of its own, asks with
  exactly \<open>request_key\<close> (the token) and \<open>firstname\<close> \<open>John\<close>.
\<close>

theorem get_query_construction:
  assumes "ensureAuthenticated env c = (Inr (), c', sent)"
    and "getRequestKey c' = Inr key"
    and "new_URL env (baseUrl c' @ endpoint) = Inr initial"
  shows "snd (snd (get env c endpoint params))
           = sent @ [get_request c' key initial endpoint params]
       \<and> resource (get_request c' key initial endpoint params :: 'b Request)
           = Url (baseUrl c' @ endpoint) (get_query key initial params)
       \<and> (params = None \<or> (\<exists>entries. params = Some entries \<and> ''request_key'' \<notin> fst ` set entries)
            \<longrightarrow> searchParams_get ''request_key'' (get_query key initial params) = Some key)
       \<and> (\<forall>entries k v. params = Some entries \<and> distinct (map fst entries) \<and> (k, v) \<in> set entries
            \<longrightarrow> searchParams_get k (get_query key initial params) = Some v)
       \<and> (endpoint = ''/v4/patients'' \<and> initial = []
            \<longrightarrow> map resource (snd (snd (patients_list env c
                    \<lparr>birthdate = None, firstname = Some ''John'', lastname = None,
                     limit = None, offset = None, patient_id = None\<rparr>)))
                = map resource sent
                  @ [Url (baseUrl c' @ ''/v4/patients'')
                       [(''request_key'', key), (''firstname'', ''John'')]])"
proof -
  have s: "snd (snd (get env c endpoint params))
           = sent @ [get_request c' key initial endpoint params]"
    using assms by (rule get_sent)
  have r: "resource (get_request c' key initial endpoint params :: 'b Request)
           = Url (baseUrl c' @ endpoint) (get_query key initial params)"
    by (simp add: get_request_def)
  have k: "params = None \<or> (\<exists>entries. params = Some entries \<and> ''request_key'' \<notin> fst ` set entries)
            \<longrightarrow> searchParams_get ''request_key'' (get_query key initial params) = Some key"
  proof
    assume "params = None \<or> (\<exists>entries. params = Some entries \<and> ''request_key'' \<notin> fst ` set entries)"
    then show "searchParams_get ''request_key'' (get_query key initial params) = Some key"
    proof
      assume "params = None"
      then show ?thesis
        by (simp add: searchParams_get_def get_query_def map_of_searchParams_set)
    next
      assume "\<exists>entries. params = Some entries \<and> ''request_key'' \<notin> fst ` set entries"
      then obtain entries where p: "params = Some entries"
        and n: "''request_key'' \<notin> fst ` set entries" by blast
      from n have "''request_key'' \<notin> fst ` set (rev entries)" by simp
      then have "map_of (rev entries) ''request_key'' = None"
        by (simp add: map_of_eq_None_iff)
      then show ?thesis
        by (simp add: p searchParams_get_def get_query_def map_of_fold_searchParams_set
            map_of_searchParams_set)
    qed
  qed
  have m: "\<forall>entries k v. params = Some entries \<and> distinct (map fst entries) \<and> (k, v) \<in> set entries
            \<longrightarrow> searchParams_get k (get_query key initial params) = Some v"
  proof (intro allI impI)
    fix entries k v
    assume a: "params = Some entries \<and> distinct (map fst entries) \<and> (k, v) \<in> set entries"
    then have "distinct (map fst (rev entries))" and "(k, v) \<in> set (rev entries)"
      by (simp_all add: rev_map [symmetric])
    then have "map_of (rev entries) k = Some v"
      by (rule map_of_is_SomeI)
    then show "searchParams_get k (get_query key initial params) = Some v"
      using a by (simp add: searchParams_get_def get_query_def map_of_fold_searchParams_set)
  qed
  have j: "endpoint = ''/v4/patients'' \<and> initial = []
            \<longrightarrow> map resource (snd (snd (patients_list env c
                    \<lparr>birthdate = None, firstname = Some ''John'', lastname = None,
                     limit = None, offset = None, patient_id = None\<rparr>)))
                = map resource sent
                  @ [Url (baseUrl c' @ ''/v4/patients'')
                       [(''request_key'', key), (''firstname'', ''John'')]]"
  proof
    assume e: "endpoint = ''/v4/patients'' \<and> initial = []"
    have u: "new_URL env (baseUrl c' @ ''/v4/patients'') = Inr []"
      using assms(3) e by simp
    show "map resource (snd (snd (patients_list env c
                    \<lparr>birthdate = None, firstname = Some ''John'', lastname = None,
                     limit = None, offset = None, patient_id = None\<rparr>)))
                = map resource sent
                  @ [Url (baseUrl c' @ ''/v4/patients'')
                       [(''request_key'', key), (''firstname'', ''John'')]]"
      by (simp add: patients_list_def response_items_sent get_sent [OF assms(1,2) u]
          patients_queryParams_def assign_text_def assign_number_def get_request_def
          get_query_def)
  qed
  from s r k m j show ?thesis by blast
qed

theorem get_query_construction_witness:
  "ensureAuthenticated (mockPlatform (Inl TypeError) (Inr mockResponse))
       (authenticatedClient ''test-request-key'' ''2024-01-02T00:00:00.000Z'')
     = (Inr (), authenticatedClient ''test-request-key'' ''2024-01-02T00:00:00.000Z'', [])
   \<and> getRequestKey (authenticatedClient ''test-request-key'' ''2024-01-02T00:00:00.000Z'')
       = Inr ''test-request-key''
   \<and> baseUrl (authenticatedClient ''test-request-key'' ''2024-01-02T00:00:00.000Z'')
       = ''https://api.sikkasoft.com''
   \<and> map resource (snd (snd (patients_list (mockPlatform (Inl TypeError) (Inr mockResponse))
         (authenticatedClient ''test-request-key'' ''2024-01-02T00:00:00.000Z'')
         \<lparr>birthdate = None, firstname = Some ''John'', lastname = None,
          limit = None, offset = None, patient_id = None\<rparr>)))
       = [Url ''https://api.sikkasoft.com/v4/patients''
            [(''request_key'', ''test-request-key''), (''firstname'', ''John'')]]
   \<and> searchParams_get ''request_key''
         (get_query ''test-request-key'' [] (Some [(''firstname'', ''John'')]))
       = Some ''test-request-key''
   \<and> searchParams_get ''firstname''
         (get_query ''test-request-key'' [] (Some [(''firstname'', ''John'')]))
       = Some ''John''"
proof -
  let ?P = "mockPlatform (Inl TypeError) (Inr mockResponse)"
  let ?c = "authenticatedClient ''test-request-key'' ''2024-01-02T00:00:00.000Z''"
  have h1: "ensureAuthenticated ?P ?c = (Inr (), ?c, [])"
    by (simp add: fixtures ops)
  have h2: "getRequestKey ?c = Inr ''test-request-key''"
    by (simp add: fixtures ops)
  have h3: "new_URL ?P (baseUrl ?c @ ''/v4/patients'') = Inr []"
    by (simp add: fixtures)
  have b: "baseUrl ?c = ''https://api.sikkasoft.com''"
    by (simp add: fixtures ops)
  note t = get_query_construction [OF h1 h2 h3, of "Some [(''firstname'', ''John'')]"]
  have r1: "map resource (snd (snd (patients_list ?P ?c
         \<lparr>birthdate = None, firstname = Some ''John'', lastname = None,
          limit = None, offset = None, patient_id = None\<rparr>)))
       = map resource ([] :: (string \<times> string) list Request list)
           @ [Url (baseUrl ?c @ ''/v4/patients'')
            [(''request_key'', ''test-request-key''), (''firstname'', ''John'')]]"
    using t [THEN conjunct2, THEN conjunct2, THEN conjunct2, THEN conjunct2]
      conjI [OF refl [of "''/v4/patients''"] refl [of "[] :: (string \<times> string) list"]]
    by (rule mp)
  have p2: "Some [(''firstname'', ''John'')] = None
            \<or> (\<exists>entries. Some [(''firstname'', ''John'')] = Some entries
                   \<and> ''request_key'' \<notin> fst ` set entries)"
    by simp
  have r2: "searchParams_get ''request_key''
         (get_query ''test-request-key'' [] (Some [(''firstname'', ''John'')]))
       = Some ''test-request-key''"
    using t [THEN conjunct2, THEN conjunct2, THEN conjunct1] p2 by (rule mp)
  have p3: "Some [(''firstname'', ''John'')] = Some [(''firstname'', ''John'')]
            \<and> distinct (map fst [(''firstname'', ''John'')])
            \<and> (''firstname'', ''John'') \<in> set [(''firstname'', ''John'')]"
    by simp
  have r3: "searchParams_get ''firstname''
         (get_query ''test-request-key'' [] (Some [(''firstname'', ''John'')]))
       = Some ''John''"
    using t [THEN conjunct2, THEN conjunct2, THEN conjunct2, THEN conjunct1, rule_format, OF p3]
    by this
  have r1': "map resource (snd (snd (patients_list ?P ?c
         \<lparr>birthdate = None, firstname = Some ''John'', lastname = None,
          limit = None, offset = None, patient_id = None\<rparr>)))
       = [Url ''https://api.sikkasoft.com/v4/patients''
            [(''request_key'', ''test-request-key''), (''firstname'', ''John'')]]"
    by (simp add: r1 b)
  from h1 h2 b r1' r2 r3 show ?thesis
    by (intro conjI)
qed

section \<open>Procedures of a claim\<close>

text \<open>
  C8. Whatever list the call \<^verbatim>\<open>transactions.list({claim_sr_no: claimSrNo})\<close> returns,
  \<^verbatim>\<open>listProcedures(claimSrNo)\<close> returns those of its entries whose \<open>transaction_type\<close> is
  \<open>Procedure\<close>, in their order (and the session and the requests of that call); for a
  non-empty serial number the list call asks with \<open>claim_sr_no\<close> alone.
\<close>

theorem listProcedures_filter:
  assumes "transactions_list env c
             \<lparr>claim_sr_no = Some claimSrNo, limit = None, offset = None,
              patient_id = None, transaction_type = None\<rparr> = (Inr transactions, c', sent)"
  shows "listProcedures env c claimSrNo
           = (Inr (filter (\<lambda>txn. SikkaTransaction.transaction_type txn = ''Procedure'') transactions),
              c', sent)
       \<and> subseq (filter (\<lambda>txn. SikkaTransaction.transaction_type txn = ''Procedure'') transactions)
           transactions
       \<and> (\<forall>txn. txn \<in> set (filter (\<lambda>txn. SikkaTransaction.transaction_type txn = ''Procedure'')
                              transactions)
              = (txn \<in> set transactions \<and> SikkaTransaction.transaction_type txn = ''Procedure''))
       \<and> (claimSrNo \<noteq> []
            \<longrightarrow> transactions_queryParams
                  \<lparr>claim_sr_no = Some claimSrNo, limit = None, offset = None,
                   patient_id = None, transaction_type = None\<rparr>
                = [(''claim_sr_no'', claimSrNo)])"
proof -
  have f: "listProcedures env c claimSrNo
           = (Inr (filter (\<lambda>txn. SikkaTransaction.transaction_type txn = ''Procedure'') transactions),
              c', sent)"
    using assms by (simp add: listProcedures_def)
  have q: "claimSrNo \<noteq> []
            \<longrightarrow> transactions_queryParams
                  \<lparr>claim_sr_no = Some claimSrNo, limit = None, offset = None,
                   patient_id = None, transaction_type = None\<rparr>
                = [(''claim_sr_no'', claimSrNo)]"
    by (simp add: transactions_queryParams_def assign_text_def assign_number_def)
  from f q show ?thesis by simp
qed

theorem listProcedures_filter_witness:
  "transactions_list (mockPlatform (Inl TypeError) (Inr transactionsResponse))
       (authenticatedClient ''test-request-key'' ''2024-01-02T00:00:00.000Z'')
       \<lparr>claim_sr_no = Some ''123'', limit = None, offset = None,
        patient_id = None, transaction_type = None\<rparr>
     = (Inr mockTransactions,
        authenticatedClient ''test-request-key'' ''2024-01-02T00:00:00.000Z'',
        [get_request (authenticatedClient ''test-request-key'' ''2024-01-02T00:00:00.000Z'')
           ''test-request-key'' [] ''/v4/transactions'' (Some [(''claim_sr_no'', ''123'')])])
   \<and> listProcedures (mockPlatform (Inl TypeError) (Inr transactionsResponse))
       (authenticatedClient ''test-request-key'' ''2024-01-02T00:00:00.000Z'') ''123''
     = (Inr [\<lparr>amount = ''100.00'', claim_sr_no = ''123'', procedure_code = ''D0120'',
              transaction_sr_no = ''1'', transaction_type = ''Procedure''\<rparr>],
        authenticatedClient ''test-request-key'' ''2024-01-02T00:00:00.000Z'',
        [get_request (authenticatedClient ''test-request-key'' ''2024-01-02T00:00:00.000Z'')
           ''test-request-key'' [] ''/v4/transactions'' (Some [(''claim_sr_no'', ''123'')])])"
proof -
  let ?P = "mockPlatform (Inl TypeError) (Inr transactionsResponse)"
  let ?c = "authenticatedClient ''test-request-key'' ''2024-01-02T00:00:00.000Z''"
  let ?r = "get_request ?c ''test-request-key'' [] ''/v4/transactions''
              (Some [(''claim_sr_no'', ''123'')]) :: (string \<times> string) list Request"
  have h1: "ensureAuthenticated ?P ?c = (Inr (), ?c, [])"
    by (simp add: fixtures ops)
  have h2: "getRequestKey ?c = Inr ''test-request-key''"
    by (simp add: fixtures ops)
  have h3: "new_URL ?P (baseUrl ?c @ ''/v4/transactions'') = Inr []"
    by (simp add: fixtures)
  have q: "transactions_queryParams
             \<lparr>claim_sr_no = Some ''123'', limit = None, offset = None,
              patient_id = None, transaction_type = None\<rparr> = [(''claim_sr_no'', ''123'')]"
    by (simp add: transactions_queryParams_def assign_text_def assign_number_def)
  have f: "fetch ?P ?r = Inr transactionsResponse"
    by (simp add: mockPlatform_def get_request_def)
  have g: "get ?P ?c ''/v4/transactions'' (Some [(''claim_sr_no'', ''123'')])
             = (JSON_parse json_get transactionsResponse, ?c, [] @ [?r])"
    by (simp add: get_dispatch [OF h1 h2 h3] f)
      (simp add: transactionsResponse_def mockResponse_def trim_def isWhiteSpace_def)
  have j: "JSON_parse json_get transactionsResponse
             = Inr \<lparr>execution_time = Some ''0.1s'', items = mockTransactions,
                    limit = Some ''100'', offset = Some ''0'',
                    pagination = Some (''1'', ''1'', ''1'', [], []),
                    total_count = Some ''2''\<rparr>"
    by (simp add: JSON_parse_def transactionsResponse_def mockResponse_def trim_def
        isWhiteSpace_def)
  have l: "transactions_list ?P ?c
             \<lparr>claim_sr_no = Some ''123'', limit = None, offset = None,
              patient_id = None, transaction_type = None\<rparr>
           = (Inr mockTransactions, ?c, [?r])"
    by (simp add: transactions_list_def q g j response_items_def)
  have p: "listProcedures ?P ?c ''123''
           = (Inr (filter (\<lambda>txn. SikkaTransaction.transaction_type txn = ''Procedure'')
                     mockTransactions), ?c, [?r])"
    using listProcedures_filter [OF l] by (rule conjunct1)
  have m: "filter (\<lambda>txn. SikkaTransaction.transaction_type txn = ''Procedure'') mockTransactions
           = [\<lparr>amount = ''100.00'', claim_sr_no = ''123'', procedure_code = ''D0120'',
               transaction_sr_no = ''1'', transaction_type = ''Procedure''\<rparr>]"
    by (simp add: mockTransactions_def)
  show ?thesis
    using l p m by simp
qed

section \<open>A failing refresh\<close>

text \<open>
  C9. When the token is set and the expiry lies less than one hour ahead, so that
  \<^verbatim>\<open>ensureAuthenticated\<close> refreshes, and the refresh fails, then \<^verbatim>\<open>get\<close>, \<^verbatim>\<open>post\<close> and
  every accessor (\<^verbatim>\<open>patients.list\<close>, \<^verbatim>\<open>claims.list\<close>, \<^verbatim>\<open>paymentTypes.list\<close>,
  \<^verbatim>\<open>claimPayment.post\<close>, \<^verbatim>\<open>transactions.list\<close>, \<^verbatim>\<open>transactions.listProcedures\<close>) fail
  with the error of the refresh and leave the session as the refresh left it; nothing was
  sent but, at most, the one key request of the refresh: the domain request never is.
  The transaction accessors work on a platform whose items are transactions, so they are
  stated for a platform of their own.
\<close>

theorem refresh_failure_propagates:
  assumes "requestKey c \<noteq> None" and "requestKey c \<noteq> Some []"
    and "requestKeyExpiresAt c = Some (TimeValue t)"
    and "t < Date_now env + 3600000"
    and "refreshAuthentication env c = (Inl e, c', sent)"
  shows "get env c endpoint params = (Inl e, c', sent)
       \<and> post env c endpoint payload = (Inl e, c', sent)
       \<and> patients_list env c patientParams = (Inl e, c', sent)
       \<and> claims_list env c claimParams = (Inl e, c', sent)
       \<and> paymentTypes_list env c paymentTypeParams = (Inl e, c', sent)
       \<and> claimPayment_post env c payload = (Inl e, c', sent)
       \<and> (sent = [] \<or> sent = [requestNewKey_request c (refreshAuthentication_requestBody c)])
       \<and> (t < Date_now env2 + 3600000 \<and> refreshAuthentication env2 c = (Inl e2, c2, sent2)
            \<longrightarrow> transactions_list env2 c transactionParams = (Inl e2, c2, sent2)
                \<and> listProcedures env2 c claimSrNo = (Inl e2, c2, sent2)
                \<and> (sent2 = []
                    \<or> sent2 = [requestNewKey_request c (refreshAuthentication_requestBody c)]))"
proof -
  have ens: "ensureAuthenticated env c = (Inl e, c', sent)"
    using assms by (rule ensureAuthenticated_refresh_fails(1))
  have g: "\<And>endpoint params. get env c endpoint params = (Inl e, c', sent)"
    using ens by (rule get_unauthenticated)
  have p: "\<And>endpoint. post env c endpoint payload = (Inl e, c', sent)"
    using ens by (rule post_unauthenticated)
  have s: "sent = [] \<or> sent = [requestNewKey_request c (refreshAuthentication_requestBody c)]"
    using assms by (rule ensureAuthenticated_refresh_fails(2))
  have a: "patients_list env c patientParams = (Inl e, c', sent)
       \<and> claims_list env c claimParams = (Inl e, c', sent)
       \<and> paymentTypes_list env c paymentTypeParams = (Inl e, c', sent)
       \<and> claimPayment_post env c payload = (Inl e, c', sent)"
    by (simp add: g p patients_list_def claims_list_def paymentTypes_list_def
        claimPayment_post_def response_items_def)
  have x: "t < Date_now env2 + 3600000 \<and> refreshAuthentication env2 c = (Inl e2, c2, sent2)
            \<longrightarrow> transactions_list env2 c transactionParams = (Inl e2, c2, sent2)
                \<and> listProcedures env2 c claimSrNo = (Inl e2, c2, sent2)
                \<and> (sent2 = []
                    \<or> sent2 = [requestNewKey_request c (refreshAuthentication_requestBody c)])"
  proof
    assume h: "t < Date_now env2 + 3600000 \<and> refreshAuthentication env2 c = (Inl e2, c2, sent2)"
    have ens2: "ensureAuthenticated env2 c = (Inl e2, c2, sent2)"
      using assms(1,2,3) h by (simp add: ensureAuthenticated_def truthy_iff)
    have g2: "\<And>endpoint params. get env2 c endpoint params = (Inl e2, c2, sent2)"
      using ens2 by (rule get_unauthenticated)
    have s2: "sent2 = []
                \<or> sent2 = [requestNewKey_request c (refreshAuthentication_requestBody c)]"
      using refreshAuthentication_sent [of env2 c] h by (simp split: if_splits)
    have l2: "\<And>params. transactions_list env2 c params = (Inl e2, c2, sent2)"
      by (simp add: transactions_list_def g2 response_items_def)
    show "transactions_list env2 c transactionParams = (Inl e2, c2, sent2)
                \<and> listProcedures env2 c claimSrNo = (Inl e2, c2, sent2)
                \<and> (sent2 = []
                    \<or> sent2 = [requestNewKey_request c (refreshAuthentication_requestBody c)])"
      by (simp add: l2 listProcedures_def s2)
  qed
  from g p a s x show ?thesis by blast
qed

theorem refresh_failure_propagates_witness:
  "requestKey (authenticatedClient ''test-request-key'' ''2024-01-01T00:30:00.000Z'')
     = Some ''test-request-key''
   \<and> requestKeyExpiresAt (authenticatedClient ''test-request-key'' ''2024-01-01T00:30:00.000Z'')
     = Some (TimeValue 1704069000000)
   \<and> 1704069000000 < Date_now denyingPlatform + 3600000
   \<and> refreshAuthentication denyingPlatform
       (authenticatedClient ''test-request-key'' ''2024-01-01T00:30:00.000Z'')
     = (Inl (Error ''Sikka authentication failed: Invalid secret key''),
        authenticatedClient ''test-request-key'' ''2024-01-01T00:30:00.000Z'',
        [requestNewKey_request (authenticatedClient ''test-request-key'' ''2024-01-01T00:30:00.000Z'')
           (refreshAuthentication_requestBody
              (authenticatedClient ''test-request-key'' ''2024-01-01T00:30:00.000Z''))])
   \<and> get denyingPlatform (authenticatedClient ''test-request-key'' ''2024-01-01T00:30:00.000Z'')
       ''/v4/patients'' None
     = (Inl (Error ''Sikka authentication failed: Invalid secret key''),
        authenticatedClient ''test-request-key'' ''2024-01-01T00:30:00.000Z'',
        [requestNewKey_request (authenticatedClient ''test-request-key'' ''2024-01-01T00:30:00.000Z'')
           (refreshAuthentication_requestBody
              (authenticatedClient ''test-request-key'' ''2024-01-01T00:30:00.000Z''))])
   \<and> post denyingPlatform (authenticatedClient ''test-request-key'' ''2024-01-01T00:30:00.000Z'')
       ''/v4/claim_payment'' [(''claim_sr_no'', ''123'')]
     = (Inl (Error ''Sikka authentication failed: Invalid secret key''),
        authenticatedClient ''test-request-key'' ''2024-01-01T00:30:00.000Z'',
        [requestNewKey_request (authenticatedClient ''test-request-key'' ''2024-01-01T00:30:00.000Z'')
           (refreshAuthentication_requestBody
              (authenticatedClient ''test-request-key'' ''2024-01-01T00:30:00.000Z''))])
   \<and> listProcedures denyingPlatform
       (authenticatedClient ''test-request-key'' ''2024-01-01T00:30:00.000Z'') ''123''
     = (Inl (Error ''Sikka authentication failed: Invalid secret key''),
        authenticatedClient ''test-request-key'' ''2024-01-01T00:30:00.000Z'',
        [requestNewKey_request (authenticatedClient ''test-request-key'' ''2024-01-01T00:30:00.000Z'')
           (refreshAuthentication_requestBody
              (authenticatedClient ''test-request-key'' ''2024-01-01T00:30:00.000Z''))])"
proof -
  let ?c = "authenticatedClient ''test-request-key'' ''2024-01-01T00:30:00.000Z''"
  let ?e = "Error ''Sikka authentication failed: Invalid secret key''"
  let ?s = "[requestNewKey_request ?c (refreshAuthentication_requestBody ?c)]
              :: (string \<times> string) list Request list"
  have h1: "requestKey ?c \<noteq> None" and h2: "requestKey ?c \<noteq> Some []"
    and k: "requestKey ?c = Some ''test-request-key''"
    by (simp_all add: fixtures ops)
  have h3: "requestKeyExpiresAt ?c = Some (TimeValue 1704069000000)"
    by (simp add: fixtures ops)
  have h4: "1704069000000 < Date_now denyingPlatform + 3600000"
    by (simp add: fixtures)
  have h5: "refreshAuthentication denyingPlatform ?c = (Inl ?e, ?c, ?s)"
    by (simp add: fixtures ops errorMessage_def)
  note t = refresh_failure_propagates [OF h1 h2 h3 h4 h5]
  have g: "get denyingPlatform ?c ''/v4/patients'' None = (Inl ?e, ?c, ?s)"
    using t [where endpoint = "''/v4/patients''" and params = None] by (rule conjunct1)
  have p: "post denyingPlatform ?c ''/v4/claim_payment'' [(''claim_sr_no'', ''123'')]
             = (Inl ?e, ?c, ?s)"
    using t [where endpoint = "''/v4/claim_payment''" and payload = "[(''claim_sr_no'', ''123'')]",
             THEN conjunct2]
    by (rule conjunct1)
  have l: "listProcedures denyingPlatform ?c ''123'' = (Inl ?e, ?c, ?s)"
    using t [where ?env2.0 = denyingPlatform and claimSrNo = "''123''",
             THEN conjunct2, THEN conjunct2, THEN conjunct2, THEN conjunct2, THEN conjunct2,
             THEN conjunct2, THEN conjunct2, THEN mp, OF conjI [OF h4 h5], THEN conjunct2]
    by (rule conjunct1)
  from k h3 h4 h5 g p l show ?thesis
    by (intro conjI)
qed

end
